theory Spec2Isabelle
  imports Main "HOL-Library.Word"
begin

section \<open>The LoRaCloud geolocation integration\<close>

text \<open>
  A shallow embedding of \<^verbatim>\<open>internal/integration/loracloud/loracloud.go\<close>.
  Every Go function of the file that takes part in handling an uplink is a HOL
  function of the same name. What the Go code reaches through other packages (the
  JSON and base64 decoders of the standard library, the resolver client, the
  key-value store behind the buffer, the integration sink) is the record
  \<open>env\<close>: the functions are stated for every environment.  Effects are values:
  each function returns the list of effects it performed, in order, and the buffer
  store is passed explicitly.
\<close>

subsection \<open>Data\<close>

type_synonym byte = "8 word"
type_synonym bytes = "byte list"

text \<open>A \<^verbatim>\<open>float64\<close> is only moved around by this file, so it is its bit pattern.\<close>

type_synonym float64 = "64 word"

text \<open>
  Go errors: the sentinel of the resolver client, an error made from a message
  (\<^verbatim>\<open>fmt.Errorf\<close>, or an error of a collaborator), and \<^verbatim>\<open>errors.Wrap\<close>.
  \<^verbatim>\<open>err == geolocation.ErrNoLocation\<close> is equality with the first constructor.
\<close>

datatype error = ErrNoLocation | Errorf string | Wrap error string

datatype location_source =
  UNKNOWN | GPS | CONFIG | GEO_RESOLVER_TDOA | GEO_RESOLVER_RSSI | GEO_RESOLVER_GNSS | GEO_RESOLVER_WIFI

record location =
  Latitude :: float64
  Longitude :: float64
  Altitude :: float64
  Source :: location_source
  Accuracy :: "32 word"

text \<open>The \<^verbatim>\<open>fine_timestamp\<close> oneof of \<^verbatim>\<open>gw.UplinkRXInfo\<close>; \<open>None\<close> is the nil interface.\<close>

datatype fine_timestamp = EncryptedFineTimestamp bytes | PlainFineTimestamp int

record uplink_rx_info =
  GatewayId :: bytes
  UplinkId :: bytes
  Rssi :: int
  LoraSnr :: float64
  RxLocation :: "location option"
  FineTimestamp :: "fine_timestamp option"

type_synonym frame = "uplink_rx_info list"

record config =
  Geolocation :: bool
  GeolocationToken :: string
  GeolocationBufferTTL :: int
  GeolocationMinBufferSize :: int
  GeolocationTDOA :: bool
  GeolocationRSSI :: bool
  GeolocationGNSS :: bool
  GeolocationGNSSPayloadField :: string
  GeolocationGNSSUseRxTime :: bool
  GeolocationWifi :: bool
  GeolocationWifiPayloadField :: string

record integration =
  config :: config
  geolocationURI :: string

record uplink_event =
  ApplicationId :: "64 word"
  ApplicationName :: string
  DeviceName :: string
  DevEui :: bytes
  FCnt :: "32 word"
  RxInfo :: frame
  ObjectJson :: string
  Tags :: "(string \<times> string) list"

record location_event =
  le_ApplicationId :: "64 word"
  le_ApplicationName :: string
  le_DeviceName :: string
  le_DevEui :: bytes
  le_Tags :: "(string \<times> string) list"
  le_Location :: location
  le_UplinkIds :: "bytes list"
  le_FCnt :: "32 word"

text \<open>
  Modelled from the spec: the type \<^verbatim>\<open>geolocation.WifiAccessPoint\<close> (the client package is
  not part of the sources at hand); its \<^verbatim>\<open>MacAddress\<close> is an array of 6 bytes and its
  \<^verbatim>\<open>SignalStrength\<close> an \<^verbatim>\<open>int\<close>.
\<close>

record wifi_access_point =
  MacAddress :: bytes
  SignalStrength :: int

text \<open>
  What \<^verbatim>\<open>json.Unmarshal\<close> stores into an \<^verbatim>\<open>interface{}\<close>. A Go map with string keys is
  an association list read with \<open>map_of\<close>.
\<close>

datatype json =
  JNull | JBool bool | JFloat float64 | JString string | JArray "json list"
  | JObject "(string \<times> json) list"

text \<open>The calls of the resolver client, one constructor for each method used.\<close>

datatype request =
  TDOASingleFrame frame
  | TDOAMultiFrame "frame list"
  | RSSISingleFrame frame
  | RSSIMultiFrame "frame list"
  | GNSSLR1110SingleFrame frame bool bytes
  | WifiTDOASingleFrame frame "wifi_access_point list"

datatype log_level = ErrorLevel | DebugLevel

text \<open>
  The effects of handling an uplink, in the order they happen: a read and a write
  of the buffer store (device, and for a write the frames and the TTL), a call of
  the resolver, a sample of the duration histogram (by its label), a log line, and
  the call of \<^verbatim>\<open>HandleLocationEvent\<close> on the sink.
\<close>

datatype effect =
  BufferGet bytes int
  | BufferSave bytes "frame list" int
  | ResolverCall request
  | Observe string
  | Log log_level string
  | SinkLocationEvent "(string \<times> string) list" location_event

text \<open>
  The collaborators. A resolver method returns a pair as in Go (a location and an
  error, \<open>None\<close> for nil); the client is made from the URI and the token.
  The store and the sink fail when the environment says so.
\<close>

record env =
  json_Unmarshal :: "string \<Rightarrow> error + (string \<times> json) list"
  base64_DecodeString :: "string \<Rightarrow> error + bytes"
  float64_to_int :: "float64 \<Rightarrow> int"
  client :: "string \<Rightarrow> string \<Rightarrow> request \<Rightarrow> location \<times> error option"
  store_get_error :: "error option"
  store_save_error :: "error option"
  sink_HandleLocationEvent :: "(string \<times> string) list \<Rightarrow> location_event \<Rightarrow> error option"

text \<open>The buffer store: for a device, the frames and the TTL they were written with.\<close>

type_synonym store = "bytes \<Rightarrow> (frame list \<times> int) option"

subsection \<open>Helpers of the Go language\<close>

text \<open>\<^verbatim>\<open>copy(dst[:], src)\<close> into a zeroed array of \<open>n\<close> bytes.\<close>

definition copy_array :: "nat \<Rightarrow> bytes \<Rightarrow> bytes" where
  "copy_array n src = take n src @ replicate (n - length src) 0"

text \<open>\<^verbatim>\<open>time.Duration(ttl) * time.Second\<close>: a product of 64-bit signed integers.\<close>

definition seconds :: "int \<Rightarrow> int" where
  "seconds ttl = sint (word_of_int (ttl * 1000000000) :: 64 word)"

text \<open>Indexing a \<^verbatim>\<open>map[string]interface{}\<close>: a missing key gives the nil interface.\<close>

definition map_index :: "(string \<times> json) list \<Rightarrow> string \<Rightarrow> json" where
  "map_index m k = (case map_of m k of None \<Rightarrow> JNull | Some v \<Rightarrow> v)"

text \<open>The verb \<^verbatim>\<open>%T\<close> on a decoded value.\<close>

fun go_type_name :: "json \<Rightarrow> string" where
  "go_type_name JNull = ''<nil>''"
| "go_type_name (JBool _) = ''bool''"
| "go_type_name (JFloat _) = ''float64''"
| "go_type_name (JString _) = ''string''"
| "go_type_name (JArray _) = ''[]interface {}''"
| "go_type_name (JObject _) = ''map[string]interface {}''"

subsection \<open>The buffer store\<close>

text \<open>
  Modelled from the spec: \<^verbatim>\<open>GetGeolocBuffer\<close> and \<^verbatim>\<open>SaveGeolocBuffer\<close> (their file is not
  part of the sources at hand). Get returns the current buffer, or the empty one when
  there is none; empty is not an error. Save writes the buffer and sets the TTL; saving
  an empty sequence is a no-op. A failing call leaves the store as it was.
\<close>

definition GetGeolocBuffer :: "env \<Rightarrow> bytes \<Rightarrow> int \<Rightarrow> store \<Rightarrow> (error + frame list) \<times> effect list" where
  "GetGeolocBuffer e devEUI ttl s =
     (case store_get_error e of
        Some err \<Rightarrow> (Inl err, [BufferGet devEUI ttl])
      | None \<Rightarrow>
          (Inr (case s devEUI of None \<Rightarrow> [] | Some (b, _) \<Rightarrow> b), [BufferGet devEUI ttl]))"

definition SaveGeolocBuffer ::
  "env \<Rightarrow> bytes \<Rightarrow> frame list \<Rightarrow> int \<Rightarrow> store \<Rightarrow> error option \<times> store \<times> effect list" where
  "SaveGeolocBuffer e devEUI items ttl s =
     (case store_save_error e of
        Some err \<Rightarrow> (Some err, s, [BufferSave devEUI items ttl])
      | None \<Rightarrow>
          (None, (if items = [] then s else s(devEUI \<mapsto> (items, ttl))),
           [BufferSave devEUI items ttl]))"

subsection \<open>Metadata filter\<close>

text \<open>
  \<^verbatim>\<open>filterOnFineTimestamp\<close>: the inner loop appends to \<open>f\<close> the receptions whose
  \<^verbatim>\<open>GetFineTimestamp()\<close> is not nil, the outer loop appends \<open>f\<close> to \<open>out\<close> when
  \<^verbatim>\<open>len(f) >= minPerFrame\<close>.
\<close>

fun filter_frame :: "frame \<Rightarrow> frame \<Rightarrow> frame" where
  "filter_frame [] f = f"
| "filter_frame (r # rs) f =
     (if FineTimestamp r \<noteq> None then filter_frame rs (f @ [r]) else filter_frame rs f)"

fun filter_frames :: "frame list \<Rightarrow> int \<Rightarrow> frame list \<Rightarrow> frame list" where
  "filter_frames [] minPerFrame out = out"
| "filter_frames (fr # frs) minPerFrame out =
     (let f = filter_frame fr []
      in if int (length f) \<ge> minPerFrame then filter_frames frs minPerFrame (out @ [f])
         else filter_frames frs minPerFrame out)"

definition filterOnFineTimestamp :: "frame list \<Rightarrow> int \<Rightarrow> frame list" where
  "filterOnFineTimestamp geolocBuffer minPerFrame = filter_frames geolocBuffer minPerFrame []"

text \<open>
  The words of the specification: in each frame keep the receptions whose fine timestamp
  is present, then drop the frames that keep fewer than \<open>min_per_frame\<close>.
\<close>

definition filter_on_fine_timestamp_spec :: "frame list \<Rightarrow> int \<Rightarrow> frame list" where
  "filter_on_fine_timestamp_spec buffer min_per_frame =
     filter (\<lambda>f. min_per_frame \<le> int (length f))
       (map (filter (\<lambda>r. FineTimestamp r \<noteq> None)) buffer)"

subsection \<open>Object extractors\<close>

definition getBytesFromJSONObject :: "env \<Rightarrow> string \<Rightarrow> string \<Rightarrow> error + bytes" where
  "getBytesFromJSONObject e field jsonStr =
     (if jsonStr = [] then Inr []
      else case json_Unmarshal e jsonStr of
        Inl err \<Rightarrow> Inl (Wrap err ''unmarshal json error'')
      | Inr v \<Rightarrow>
          (case map_of v field of
             None \<Rightarrow> Inr []
           | Some vv \<Rightarrow>
               (case vv of
                  JString str \<Rightarrow>
                    (case base64_DecodeString e str of
                       Inl err \<Rightarrow> Inl (Wrap err ''base64 decode error'')
                     | Inr b \<Rightarrow> Inr b)
                | _ \<Rightarrow> Inl (Errorf (''expected string, got '' @ go_type_name vv)))))"

text \<open>The loop over \<^verbatim>\<open>aps\<close> of \<^verbatim>\<open>getWifiAccessPointsFromJSONObject\<close>; it returns at the first error.\<close>

fun wifi_ap_loop :: "env \<Rightarrow> json list \<Rightarrow> wifi_access_point list \<Rightarrow> error + wifi_access_point list" where
  "wifi_ap_loop e [] out = Inr out"
| "wifi_ap_loop e (a # aps) out =
     (case a of
        JObject vvv \<Rightarrow>
          (case map_index vvv ''macAddress'' of
             JString bssid \<Rightarrow>
               (case base64_DecodeString e bssid of
                  Inl err \<Rightarrow> Inl (Wrap err ''base64 decode error'')
                | Inr b \<Rightarrow>
                    (case map_index vvv ''signalStrength'' of
                       JFloat ss \<Rightarrow>
                         wifi_ap_loop e aps
                           (out @ [\<lparr>MacAddress = copy_array 6 b,
                                    SignalStrength = float64_to_int e ss\<rparr>])
                     | x \<Rightarrow>
                         Inl (Errorf (''signalStrength must be a float64, got: '' @ go_type_name x))))
           | x \<Rightarrow> Inl (Errorf (''macAddress must be a string, got: '' @ go_type_name x)))
      | x \<Rightarrow> Inl (Errorf (''expected key / value map, got: '' @ go_type_name x)))"

definition getWifiAccessPointsFromJSONObject ::
  "env \<Rightarrow> string \<Rightarrow> string \<Rightarrow> error + wifi_access_point list" where
  "getWifiAccessPointsFromJSONObject e field jsonStr =
     (if jsonStr = [] then Inr []
      else case json_Unmarshal e jsonStr of
        Inl err \<Rightarrow> Inl (Wrap err ''unmarshal json error'')
      | Inr v \<Rightarrow>
          (case map_of v field of
             None \<Rightarrow> Inr []
           | Some vv \<Rightarrow>
               (case vv of
                  JArray aps \<Rightarrow> wifi_ap_loop e aps []
                | _ \<Rightarrow>
                    Inl (Errorf (''field content must be a list of objects, got: ''
                                 @ go_type_name vv)))))"

subsection \<open>Resolver calls\<close>

text \<open>
  Each of the four functions makes the client from the URI and the token, calls one
  method, and turns its pair into a pointer to a location and an error.
\<close>

type_synonym resolved = "(location option \<times> error option) \<times> effect list"

definition tdoaGeolocation :: "env \<Rightarrow> integration \<Rightarrow> bytes \<Rightarrow> frame list \<Rightarrow> resolved" where
  "tdoaGeolocation e i devEUI geolocBuffer =
     (let (req, label) =
            (case geolocBuffer of
               [f] \<Rightarrow> (TDOASingleFrame f, ''v2_tdoa_single'')
             | _ \<Rightarrow> (TDOAMultiFrame geolocBuffer, ''v2_tdoa_multi''));
          (loc, err) = client e (geolocationURI i) (GeolocationToken (config i)) req;
          fx = [ResolverCall req, Observe label]
      in case err of
           Some er \<Rightarrow>
             if er = ErrNoLocation then ((None, None), fx)
             else ((None, Some (Wrap er ''geolocation error'')), fx)
         | None \<Rightarrow> ((Some loc, None), fx))"

definition rssiGeolocation :: "env \<Rightarrow> integration \<Rightarrow> bytes \<Rightarrow> frame list \<Rightarrow> resolved" where
  "rssiGeolocation e i devEUI geolocBuffer =
     (let (req, label) =
            (case geolocBuffer of
               [f] \<Rightarrow> (RSSISingleFrame f, ''v2_rssi_single'')
             | _ \<Rightarrow> (RSSIMultiFrame geolocBuffer, ''v2_rssi_multi''));
          (loc, err) = client e (geolocationURI i) (GeolocationToken (config i)) req;
          fx = [ResolverCall req, Observe label]
      in case err of
           Some er \<Rightarrow>
             if er = ErrNoLocation then ((None, None), fx)
             else ((None, Some (Wrap er ''geolocation error'')), fx)
         | None \<Rightarrow> ((Some loc, None), fx))"

definition gnssLR1110Geolocation :: "env \<Rightarrow> integration \<Rightarrow> bytes \<Rightarrow> frame \<Rightarrow> bytes \<Rightarrow> resolved" where
  "gnssLR1110Geolocation e i devEUI rxInfo pl =
     (let req = GNSSLR1110SingleFrame rxInfo (GeolocationGNSSUseRxTime (config i)) pl;
          (loc, err) = client e (geolocationURI i) (GeolocationToken (config i)) req
      in case err of
           Some er \<Rightarrow>
             if er = ErrNoLocation then ((None, None), [ResolverCall req])
             else ((None, Some (Wrap er ''geolocation error'')), [ResolverCall req])
         | None \<Rightarrow> ((Some loc, None), [ResolverCall req, Observe ''v3_gnss_rl1110_single'']))"

text \<open>
  \<^verbatim>\<open>wifiTDOAGeolocation\<close> has no return in the branch of an error that is not the
  sentinel: it goes on to the histogram and returns the location with a nil error.
\<close>

definition wifiTDOAGeolocation ::
  "env \<Rightarrow> integration \<Rightarrow> bytes \<Rightarrow> frame \<Rightarrow> wifi_access_point list \<Rightarrow> resolved" where
  "wifiTDOAGeolocation e i devEUI rxInfo aps =
     (let req = WifiTDOASingleFrame rxInfo aps;
          (loc, err) = client e (geolocationURI i) (GeolocationToken (config i)) req
      in if err = Some ErrNoLocation then ((None, None), [ResolverCall req])
         else ((Some loc, None), [ResolverCall req, Observe ''v2_wifi_tdoa_single'']))"

subsection \<open>The orchestrator\<close>

text \<open>The two nested loops that collect the uplink ids of the frames sent to the resolver.\<close>

fun uplinkIDs_frame :: "frame \<Rightarrow> bytes list \<Rightarrow> bytes list" where
  "uplinkIDs_frame [] uplinkIDs = uplinkIDs"
| "uplinkIDs_frame (r # rs) uplinkIDs = uplinkIDs_frame rs (uplinkIDs @ [UplinkId r])"

fun uplinkIDs_frames :: "frame list \<Rightarrow> bytes list \<Rightarrow> bytes list" where
  "uplinkIDs_frames [] uplinkIDs = uplinkIDs"
| "uplinkIDs_frames (f # fs) uplinkIDs = uplinkIDs_frames fs (uplinkIDs_frame f uplinkIDs)"

text \<open>
  \<^verbatim>\<open>geolocation\<close> is four blocks in a row, each returning or falling through to the next.
  \<open>geolocation_rssi\<close>, \<open>geolocation_tdoa\<close> and \<open>geolocation_wifi\<close> are the function
  from the block of that name to its end; \<open>geolocation\<close> starts at the GNSS block.
  The result is the Go triple: uplink ids, a pointer to a location, an error.
\<close>

type_synonym geolocated = "(bytes list \<times> location option \<times> error option) \<times> effect list"

definition geolocation_rssi ::
  "env \<Rightarrow> integration \<Rightarrow> bytes \<Rightarrow> frame list \<Rightarrow> uplink_event \<Rightarrow> geolocated" where
  "geolocation_rssi e i devEUI geolocBuffer pl =
     (if GeolocationRSSI (config i) then
        (if length geolocBuffer = 0
            \<or> int (length geolocBuffer) < GeolocationMinBufferSize (config i)
         then (([], None, None),
               [Log DebugLevel ''integration/loracloud: not enough meta-data for rssi geolocation''])
         else
           (let uplinkIDs = uplinkIDs_frames geolocBuffer [];
                ((loc, err), fx) = rssiGeolocation e i devEUI geolocBuffer
            in ((uplinkIDs, loc, err), fx)))
      else (([], None, None), []))"

definition geolocation_tdoa ::
  "env \<Rightarrow> integration \<Rightarrow> bytes \<Rightarrow> frame list \<Rightarrow> uplink_event \<Rightarrow> geolocated" where
  "geolocation_tdoa e i devEUI geolocBuffer pl =
     (if GeolocationTDOA (config i) then
        (let tdoaFiltered = filterOnFineTimestamp geolocBuffer 3
         in if length tdoaFiltered = 0
               \<or> int (length tdoaFiltered) < GeolocationMinBufferSize (config i)
            then
              (let (r, fx) = geolocation_rssi e i devEUI geolocBuffer pl
               in (r, Log DebugLevel
                        ''integration/loracloud: not enough meta-data for tdoa geolocation'' # fx))
            else
              (let uplinkIDs = uplinkIDs_frames tdoaFiltered [];
                   ((loc, err), fx) = tdoaGeolocation e i devEUI tdoaFiltered
               in ((uplinkIDs, loc, err), fx)))
      else geolocation_rssi e i devEUI geolocBuffer pl)"

definition geolocation_wifi ::
  "env \<Rightarrow> integration \<Rightarrow> bytes \<Rightarrow> frame list \<Rightarrow> uplink_event \<Rightarrow> geolocated" where
  "geolocation_wifi e i devEUI geolocBuffer pl =
     (if GeolocationWifi (config i) then
        (case getWifiAccessPointsFromJSONObject e (GeolocationWifiPayloadField (config i))
                (ObjectJson pl) of
           Inl err \<Rightarrow>
             (([], None, None),
              [Log ErrorLevel ''integration/loracloud: get wifi access-points from object error''])
         | Inr wifiAPs \<Rightarrow>
             if length wifiAPs = 0 then
               (let (r, fx) = geolocation_tdoa e i devEUI geolocBuffer pl
                in (r, Log DebugLevel
                         ''integration/loracloud: no wifi access-points found in object'' # fx))
             else
               (let ((loc, err), fx) = wifiTDOAGeolocation e i devEUI (RxInfo pl) wifiAPs
                in (([], loc, err), fx)))
      else geolocation_tdoa e i devEUI geolocBuffer pl)"

definition geolocation ::
  "env \<Rightarrow> integration \<Rightarrow> bytes \<Rightarrow> frame list \<Rightarrow> uplink_event \<Rightarrow> geolocated" where
  "geolocation e i devEUI geolocBuffer pl =
     (if GeolocationGNSS (config i) then
        (case getBytesFromJSONObject e (GeolocationGNSSPayloadField (config i)) (ObjectJson pl) of
           Inl err \<Rightarrow>
             (([], None, None),
              [Log ErrorLevel ''integration/loracloud: get gnss bytes from object error''])
         | Inr gnssPL \<Rightarrow>
             if length gnssPL = 0 then
               (let (r, fx) = geolocation_wifi e i devEUI geolocBuffer pl
                in (r, Log DebugLevel ''integration/loracloud: no gnss bytes found in object'' # fx))
             else
               (let ((loc, err), fx) = gnssLR1110Geolocation e i devEUI (RxInfo pl) gnssPL
                in (([], loc, err), fx)))
      else geolocation_wifi e i devEUI geolocBuffer pl)"

subsection \<open>The buffer update and the uplink handler\<close>

definition updateGeolocBuffer ::
  "env \<Rightarrow> integration \<Rightarrow> bytes \<Rightarrow> uplink_event \<Rightarrow> store
     \<Rightarrow> (error + frame list) \<times> store \<times> effect list" where
  "updateGeolocBuffer e i devEUI pl s =
     (let ttl = seconds (GeolocationBufferTTL (config i))
      in case GetGeolocBuffer e devEUI ttl s of
           (Inl err, fx) \<Rightarrow> (Inl (Wrap err ''get geoloc buffer error''), s, fx)
         | (Inr stored, fx) \<Rightarrow>
             (let geolocBuffer =
                    (if length (RxInfo pl) \<ge> 3 then stored @ [RxInfo pl] else stored)
              in if length geolocBuffer \<noteq> 0 then
                   (case SaveGeolocBuffer e devEUI geolocBuffer ttl s of
                      (Some err, s', fx') \<Rightarrow>
                        (Inl (Wrap err ''save geoloc buffer error''), s', fx @ fx')
                    | (None, s', fx') \<Rightarrow> (Inr geolocBuffer, s', fx @ fx'))
                 else (Inr geolocBuffer, s, fx)))"

definition New :: "config \<Rightarrow> integration" where
  "New conf = \<lparr>config = conf, geolocationURI = ''https://gls.loracloud.com''\<rparr>"

text \<open>
  \<^verbatim>\<open>HandleUplinkEvent\<close> returns the error (\<open>None\<close> for nil), the store after the call and
  the effects of the call.
\<close>

definition HandleUplinkEvent ::
  "env \<Rightarrow> integration \<Rightarrow> (string \<times> string) list \<Rightarrow> uplink_event \<Rightarrow> store
     \<Rightarrow> error option \<times> store \<times> effect list" where
  "HandleUplinkEvent e i vars pl s =
     (let devEUI = copy_array 8 (DevEui pl)
      in if Geolocation (config i) then
           (case updateGeolocBuffer e i devEUI pl s of
              (Inl err, s', fx) \<Rightarrow> (Some (Wrap err ''update geolocation buffer error''), s', fx)
            | (Inr geolocBuffer, s', fx) \<Rightarrow>
                (case geolocation e i devEUI geolocBuffer pl of
                   ((uplinkIDs, loc, Some err), fx') \<Rightarrow>
                     (Some (Wrap err ''geolocation error''), s', fx @ fx')
                 | ((uplinkIDs, None, None), fx') \<Rightarrow> (None, s', fx @ fx')
                 | ((uplinkIDs, Some l, None), fx') \<Rightarrow>
                     (let fCnt = (if length uplinkIDs = 0 then FCnt pl else 0);
                          ev = \<lparr>le_ApplicationId = ApplicationId pl,
                                le_ApplicationName = ApplicationName pl,
                                le_DeviceName = DeviceName pl,
                                le_DevEui = DevEui pl,
                                le_Tags = Tags pl,
                                le_Location = l,
                                le_UplinkIds = uplinkIDs,
                                le_FCnt = fCnt\<rparr>
                      in case sink_HandleLocationEvent e vars ev of
                           Some err \<Rightarrow>
                             (None, s', fx @ fx' @
                                [SinkLocationEvent vars ev,
                                 Log ErrorLevel ''integration/loracloud: geolocation error''])
                         | None \<Rightarrow> (None, s', fx @ fx' @ [SinkLocationEvent vars ev]))))
         else (None, s, []))"

subsection \<open>Reading a run\<close>

text \<open>The resolver calls, the location events given to the sink, and the buffer I/O of a run.\<close>

fun resolver_calls :: "effect list \<Rightarrow> request list" where
  "resolver_calls [] = []"
| "resolver_calls (ResolverCall r # fx) = r # resolver_calls fx"
| "resolver_calls (_ # fx) = resolver_calls fx"

fun location_events :: "effect list \<Rightarrow> location_event list" where
  "location_events [] = []"
| "location_events (SinkLocationEvent _ ev # fx) = ev # location_events fx"
| "location_events (_ # fx) = location_events fx"

fun buffer_io :: "effect list \<Rightarrow> effect list" where
  "buffer_io [] = []"
| "buffer_io (BufferGet d t # fx) = BufferGet d t # buffer_io fx"
| "buffer_io (BufferSave d b t # fx) = BufferSave d b t # buffer_io fx"
| "buffer_io (_ # fx) = buffer_io fx"

subsection \<open>The specification's reading of the orchestrator\<close>

text \<open>
  The strategies and, in the words of the specification, when each one qualifies:
  GNSS when enabled and the blob extracted is not empty, WiFi when enabled and the
  list extracted is not empty, TDOA when enabled and the buffer filtered on three
  fine timestamps has at least \<open>max 1 min_buffer_size\<close> frames, RSSI when enabled
  and the buffer has as many. The strategy selected is the first one that qualifies
  in the order GNSS, WiFi, TDOA, RSSI.
\<close>

datatype strategy = Gnss | Wifi | Tdoa | Rssi

definition gnss_extracted :: "env \<Rightarrow> config \<Rightarrow> uplink_event \<Rightarrow> error + bytes" where
  "gnss_extracted e c pl = getBytesFromJSONObject e (GeolocationGNSSPayloadField c) (ObjectJson pl)"

definition wifi_extracted :: "env \<Rightarrow> config \<Rightarrow> uplink_event \<Rightarrow> error + wifi_access_point list" where
  "wifi_extracted e c pl =
     getWifiAccessPointsFromJSONObject e (GeolocationWifiPayloadField c) (ObjectJson pl)"

fun spec_qualifies :: "env \<Rightarrow> config \<Rightarrow> frame list \<Rightarrow> uplink_event \<Rightarrow> strategy \<Rightarrow> bool" where
  "spec_qualifies e c buf pl Gnss =
     (GeolocationGNSS c \<and> (case gnss_extracted e c pl of Inl _ \<Rightarrow> False | Inr b \<Rightarrow> b \<noteq> []))"
| "spec_qualifies e c buf pl Wifi =
     (GeolocationWifi c \<and> (case wifi_extracted e c pl of Inl _ \<Rightarrow> False | Inr aps \<Rightarrow> aps \<noteq> []))"
| "spec_qualifies e c buf pl Tdoa =
     (GeolocationTDOA c
      \<and> max 1 (GeolocationMinBufferSize c) \<le> int (length (filterOnFineTimestamp buf 3)))"
| "spec_qualifies e c buf pl Rssi =
     (GeolocationRSSI c \<and> max 1 (GeolocationMinBufferSize c) \<le> int (length buf))"

definition spec_selected :: "env \<Rightarrow> config \<Rightarrow> frame list \<Rightarrow> uplink_event \<Rightarrow> strategy option" where
  "spec_selected e c buf pl = find (spec_qualifies e c buf pl) [Gnss, Wifi, Tdoa, Rssi]"

text \<open>The request a strategy sends: one frame or several for TDOA and RSSI.\<close>

fun spec_request :: "env \<Rightarrow> config \<Rightarrow> frame list \<Rightarrow> uplink_event \<Rightarrow> strategy \<Rightarrow> request" where
  "spec_request e c buf pl Gnss =
     GNSSLR1110SingleFrame (RxInfo pl) (GeolocationGNSSUseRxTime c)
       (case gnss_extracted e c pl of Inl _ \<Rightarrow> [] | Inr b \<Rightarrow> b)"
| "spec_request e c buf pl Wifi =
     WifiTDOASingleFrame (RxInfo pl) (case wifi_extracted e c pl of Inl _ \<Rightarrow> [] | Inr aps \<Rightarrow> aps)"
| "spec_request e c buf pl Tdoa =
     (case filterOnFineTimestamp buf 3 of [f] \<Rightarrow> TDOASingleFrame f | fs \<Rightarrow> TDOAMultiFrame fs)"
| "spec_request e c buf pl Rssi =
     (case buf of [f] \<Rightarrow> RSSISingleFrame f | fs \<Rightarrow> RSSIMultiFrame fs)"

text \<open>
  An extractor that is run fails: the GNSS extractor when GNSS is enabled, the WiFi
  extractor when WiFi is enabled and GNSS has not qualified.
\<close>

definition extractor_fails :: "env \<Rightarrow> config \<Rightarrow> uplink_event \<Rightarrow> bool" where
  "extractor_fails e c pl =
     ((GeolocationGNSS c \<and> isl (gnss_extracted e c pl))
      \<or> (GeolocationWifi c \<and> isl (wifi_extracted e c pl) \<and> \<not> spec_qualifies e c [] pl Gnss))"

text \<open>The strategy a request belongs to, the frames it carries, and the strategies a run attempted.\<close>

fun strategy_of :: "request \<Rightarrow> strategy" where
  "strategy_of (TDOASingleFrame _) = Tdoa"
| "strategy_of (TDOAMultiFrame _) = Tdoa"
| "strategy_of (RSSISingleFrame _) = Rssi"
| "strategy_of (RSSIMultiFrame _) = Rssi"
| "strategy_of (GNSSLR1110SingleFrame _ _ _) = Gnss"
| "strategy_of (WifiTDOASingleFrame _ _) = Wifi"

fun request_frames :: "request \<Rightarrow> frame list" where
  "request_frames (TDOASingleFrame f) = [f]"
| "request_frames (TDOAMultiFrame fs) = fs"
| "request_frames (RSSISingleFrame f) = [f]"
| "request_frames (RSSIMultiFrame fs) = fs"
| "request_frames (GNSSLR1110SingleFrame f _ _) = [f]"
| "request_frames (WifiTDOASingleFrame f _) = [f]"

definition attempts :: "effect list \<Rightarrow> strategy \<Rightarrow> bool" where
  "attempts fx st = (st \<in> set (map strategy_of (resolver_calls fx)))"

subsection \<open>The specification's reading of the buffer\<close>

text \<open>
  The frames stored for a device, the sequence after the update protocol (the frame
  of the uplink appended when it has three receptions or more), and the invariant of
  the data model: a stored buffer is not empty and each of its frames has three
  receptions or more.
\<close>

definition stored_frames :: "store \<Rightarrow> bytes \<Rightarrow> frame list" where
  "stored_frames s d = (case s d of None \<Rightarrow> [] | Some (b, _) \<Rightarrow> b)"

definition updated_frames :: "store \<Rightarrow> bytes \<Rightarrow> uplink_event \<Rightarrow> frame list" where
  "updated_frames s d pl =
     stored_frames s d @ (if 3 \<le> length (RxInfo pl) then [RxInfo pl] else [])"

definition frames_ok :: "frame list \<Rightarrow> bool" where
  "frames_ok b = list_all (\<lambda>f. 3 \<le> length f) b"

definition store_inv :: "store \<Rightarrow> bool" where
  "store_inv s =
     ((\<forall>d. stored_frames s d = [] \<longleftrightarrow> s d = None) \<and> (\<forall>d. frames_ok (stored_frames s d)))"

text \<open>
  The stores the handler can reach from the empty one: by handling an uplink, in any
  environment and configuration, and by the expiry of an entry.
\<close>

inductive reachable :: "store \<Rightarrow> bool" where
  reachable_empty: "reachable Map.empty"
| reachable_uplink:
    "reachable s \<Longrightarrow> HandleUplinkEvent e i vars pl s = (r, s', fx) \<Longrightarrow> reachable s'"
| reachable_expiry: "reachable s \<Longrightarrow> reachable (s(d := None))"

subsection \<open>The specification's reading of the WiFi extractor\<close>

text \<open>
  An entry of the list is well formed when it is an object whose \<^verbatim>\<open>macAddress\<close> is a
  string that decodes and whose \<^verbatim>\<open>signalStrength\<close> is a number; \<open>mac_decoded\<close> is what
  its address decodes to, of any length.
\<close>

definition mac_decoded :: "env \<Rightarrow> json \<Rightarrow> bytes" where
  "mac_decoded e a =
     (case a of
        JObject m \<Rightarrow>
          (case map_index m ''macAddress'' of
             JString bssid \<Rightarrow> (case base64_DecodeString e bssid of Inl _ \<Rightarrow> [] | Inr b \<Rightarrow> b)
           | _ \<Rightarrow> [])
      | _ \<Rightarrow> [])"

definition signal_strength :: "env \<Rightarrow> json \<Rightarrow> int" where
  "signal_strength e a =
     (case a of
        JObject m \<Rightarrow> (case map_index m ''signalStrength'' of JFloat ss \<Rightarrow> float64_to_int e ss | _ \<Rightarrow> 0)
      | _ \<Rightarrow> 0)"

definition ap_well_formed :: "env \<Rightarrow> json \<Rightarrow> bool" where
  "ap_well_formed e a =
     (case a of
        JObject m \<Rightarrow>
          (case map_index m ''macAddress'' of
             JString bssid \<Rightarrow>
               \<not> isl (base64_DecodeString e bssid)
               \<and> (case map_index m ''signalStrength'' of JFloat _ \<Rightarrow> True | _ \<Rightarrow> False)
           | _ \<Rightarrow> False)
      | _ \<Rightarrow> False)"

subsection \<open>Fixtures\<close>

text \<open>
  The inputs of the repository's test suite, used to run the model: three gateways,
  the uplink of \<^verbatim>\<open>test-device\<close>, a resolver that answers every request with the same
  location, decoders that know the payloads of the tests, a store and a sink that do
  not fail. Floating-point numbers are their IEEE-754 bit patterns.
\<close>

definition test_gateway_location :: location where
  "test_gateway_location =
     \<lparr>Latitude = 0x3FF1C6A7EF9DB22D, Longitude = 0x4001C6A7EF9DB22D,
      Altitude = 0x400AA9FBE76C8B44, Source = UNKNOWN, Accuracy = 0\<rparr>"

definition test_rx :: "byte \<Rightarrow> float64 \<Rightarrow> fine_timestamp option \<Rightarrow> uplink_rx_info" where
  "test_rx n snr ft =
     \<lparr>GatewayId = replicate 8 n, UplinkId = [n], Rssi = uint n, LoraSnr = snr,
      RxLocation = Some test_gateway_location, FineTimestamp = ft\<rparr>"

definition test_frame :: frame where
  "test_frame =
     [test_rx 1 0x3FF199999999999A (Some (PlainFineTimestamp 111)),
      test_rx 2 0x4000CCCCCCCCCCCD (Some (PlainFineTimestamp 222)),
      test_rx 3 0x4008CCCCCCCCCCCD (Some (PlainFineTimestamp 333))]"

definition test_frame_two_timestamps :: frame where
  "test_frame_two_timestamps =
     [test_rx 1 0x3FF199999999999A (Some (PlainFineTimestamp 111)),
      test_rx 2 0x4000CCCCCCCCCCCD None,
      test_rx 3 0x4008CCCCCCCCCCCD (Some (PlainFineTimestamp 333))]"

definition test_frame_old :: frame where
  "test_frame_old =
     [test_rx 4 0x3FF199999999999A (Some (PlainFineTimestamp 444)),
      test_rx 5 0x4000CCCCCCCCCCCD (Some (PlainFineTimestamp 555)),
      test_rx 6 0x4008CCCCCCCCCCCD (Some (PlainFineTimestamp 666))]"

definition test_uplink :: uplink_event where
  "test_uplink =
     \<lparr>ApplicationId = 1, ApplicationName = ''test-app'', DeviceName = ''test-device'',
      DevEui = [1, 2, 3, 4, 5, 6, 7, 8], FCnt = 10, RxInfo = test_frame, ObjectJson = [],
      Tags = []\<rparr>"

definition test_dev_eui :: bytes where
  "test_dev_eui = [1, 2, 3, 4, 5, 6, 7, 8]"

definition test_json_gnss :: string where
  \<open>test_json_gnss = ''{"lr1110_gnss": "AQID"}''\<close>

definition test_json_wifi :: string where
  \<open>test_json_wifi = ''{"wifi_aps": [{"macAddress": "AQEBAQEB", "signalStrength": -10}]}''\<close>

definition test_json_mismatch :: string where
  \<open>test_json_mismatch = ''{"lr1110_gnss": 5, "wifi_aps": "AQID"}''\<close>

definition test_json_macs :: string where
  \<open>test_json_macs = ''{"wifi_aps": [{"macAddress": "AQID", "signalStrength": -10}, {"macAddress": "AQIDBAUGBwg=", "signalStrength": -20}]}''\<close>

definition test_unmarshal :: "string \<Rightarrow> error + (string \<times> json) list" where
  "test_unmarshal js =
     (if js = test_json_gnss then Inr [(''lr1110_gnss'', JString ''AQID'')]
      else if js = test_json_wifi then
        Inr [(''wifi_aps'',
              JArray [JObject [(''macAddress'', JString ''AQEBAQEB''),
                               (''signalStrength'', JFloat 0xC024000000000000)]])]
      else if js = test_json_mismatch then
        Inr [(''lr1110_gnss'', JFloat 0x4014000000000000), (''wifi_aps'', JString ''AQID'')]
      else if js = test_json_macs then
        Inr [(''wifi_aps'',
              JArray [JObject [(''macAddress'', JString ''AQID''),
                               (''signalStrength'', JFloat 0xC024000000000000)],
                      JObject [(''macAddress'', JString ''AQIDBAUGBwg=''),
                               (''signalStrength'', JFloat 0xC034000000000000)]])]
      else Inl (Errorf ''invalid character''))"

definition test_base64 :: "string \<Rightarrow> error + bytes" where
  "test_base64 str =
     (if str = ''AQID'' then Inr [1, 2, 3]
      else if str = ''AQEBAQEB'' then Inr [1, 1, 1, 1, 1, 1]
      else if str = ''AQIDBAUGBwg='' then Inr [1, 2, 3, 4, 5, 6, 7, 8]
      else Inl (Errorf ''illegal base64 data''))"

definition test_float64_to_int :: "float64 \<Rightarrow> int" where
  "test_float64_to_int x =
     (if x = 0xC024000000000000 then - 10
      else if x = 0xC034000000000000 then - 20
      else if x = 0xC03E000000000000 then - 30
      else 0)"

definition test_location :: "location_source \<Rightarrow> location" where
  "test_location src =
     \<lparr>Latitude = 0x3FF1F7CED916872B, Longitude = 0x4000FBE76C8B4396,
      Altitude = 0x4008FBE76C8B4396, Source = src, Accuracy = 10\<rparr>"

definition zero_location :: location where
  "zero_location = \<lparr>Latitude = 0, Longitude = 0, Altitude = 0, Source = UNKNOWN, Accuracy = 0\<rparr>"

fun source_of :: "request \<Rightarrow> location_source" where
  "source_of (TDOASingleFrame _) = GEO_RESOLVER_TDOA"
| "source_of (TDOAMultiFrame _) = GEO_RESOLVER_TDOA"
| "source_of (RSSISingleFrame _) = GEO_RESOLVER_RSSI"
| "source_of (RSSIMultiFrame _) = GEO_RESOLVER_RSSI"
| "source_of (GNSSLR1110SingleFrame _ _ _) = GEO_RESOLVER_GNSS"
| "source_of (WifiTDOASingleFrame _ _) = GEO_RESOLVER_WIFI"

definition test_client :: "string \<Rightarrow> string \<Rightarrow> request \<Rightarrow> location \<times> error option" where
  "test_client uri token req = (test_location (source_of req), None)"

definition test_client_down :: "string \<Rightarrow> string \<Rightarrow> request \<Rightarrow> location \<times> error option" where
  "test_client_down uri token req = (zero_location, Some (Errorf ''http post error''))"

definition test_client_no_location :: "string \<Rightarrow> string \<Rightarrow> request \<Rightarrow> location \<times> error option" where
  "test_client_no_location uri token req = (zero_location, Some ErrNoLocation)"

definition test_env :: env where
  "test_env =
     \<lparr>json_Unmarshal = test_unmarshal, base64_DecodeString = test_base64,
      float64_to_int = test_float64_to_int, client = test_client,
      store_get_error = None, store_save_error = None,
      sink_HandleLocationEvent = (\<lambda>vars ev. None)\<rparr>"

definition test_config :: config where
  "test_config =
     \<lparr>Geolocation = True, GeolocationToken = [], GeolocationBufferTTL = 0,
      GeolocationMinBufferSize = 0, GeolocationTDOA = False, GeolocationRSSI = False,
      GeolocationGNSS = False, GeolocationGNSSPayloadField = ''lr1110_gnss'',
      GeolocationGNSSUseRxTime = False, GeolocationWifi = False,
      GeolocationWifiPayloadField = ''wifi_aps''\<rparr>"

section \<open>Properties\<close>

subsection \<open>The loops as list functions\<close>

lemma filter_frame_eq: "filter_frame fr f = f @ filter (\<lambda>r. FineTimestamp r \<noteq> None) fr"
  by (induction fr arbitrary: f) auto

lemma filter_frames_eq:
  "filter_frames frs m out = out @ filter_on_fine_timestamp_spec frs m"
  by (induction frs arbitrary: out)
     (auto simp: filter_on_fine_timestamp_spec_def filter_frame_eq Let_def)

lemma filterOnFineTimestamp_eq:
  "filterOnFineTimestamp b m =
     filter (\<lambda>f. m \<le> int (length f)) (map (filter (\<lambda>r. FineTimestamp r \<noteq> None)) b)"
  by (simp add: filterOnFineTimestamp_def filter_frames_eq filter_on_fine_timestamp_spec_def)

lemma uplinkIDs_frame_eq: "uplinkIDs_frame f ids = ids @ map UplinkId f"
  by (induction f arbitrary: ids) auto

lemma uplinkIDs_frames_eq: "uplinkIDs_frames fs ids = ids @ concat (map (map UplinkId) fs)"
  by (induction fs arbitrary: ids) (auto simp: uplinkIDs_frame_eq)

lemma resolver_calls_append [simp]:
  "resolver_calls (xs @ ys) = resolver_calls xs @ resolver_calls ys"
  by (induction xs rule: resolver_calls.induct) auto

lemma location_events_append [simp]:
  "location_events (xs @ ys) = location_events xs @ location_events ys"
  by (induction xs rule: location_events.induct) auto

lemma Suc0_le_length: "(Suc 0 \<le> length b) = (b \<noteq> [])"
  by (cases b) auto

subsection \<open>The resolver calls of each block\<close>

lemma tdoaGeolocation_calls:
  "resolver_calls (snd (tdoaGeolocation e i d b)) =
     [case b of [f] \<Rightarrow> TDOASingleFrame f | fs \<Rightarrow> TDOAMultiFrame fs]"
  by (auto simp: tdoaGeolocation_def Let_def split: prod.splits list.splits option.splits)

lemma rssiGeolocation_calls:
  "resolver_calls (snd (rssiGeolocation e i d b)) =
     [case b of [f] \<Rightarrow> RSSISingleFrame f | fs \<Rightarrow> RSSIMultiFrame fs]"
  by (auto simp: rssiGeolocation_def Let_def split: prod.splits list.splits option.splits)

lemma gnssLR1110Geolocation_calls:
  "resolver_calls (snd (gnssLR1110Geolocation e i d rx b)) =
     [GNSSLR1110SingleFrame rx (GeolocationGNSSUseRxTime (config i)) b]"
  by (auto simp: gnssLR1110Geolocation_def Let_def split: prod.splits option.splits)

lemma wifiTDOAGeolocation_calls:
  "resolver_calls (snd (wifiTDOAGeolocation e i d rx aps)) = [WifiTDOASingleFrame rx aps]"
  by (auto simp: wifiTDOAGeolocation_def Let_def split: prod.splits)

lemma geolocation_rssi_calls:
  "resolver_calls (snd (geolocation_rssi e i d b pl)) =
     (if spec_qualifies e (config i) b pl Rssi then [spec_request e (config i) b pl Rssi] else [])"
  using rssiGeolocation_calls [of e i d b]
  by (auto simp: geolocation_rssi_def Let_def Suc0_le_length split: prod.splits)

lemma geolocation_tdoa_calls:
  "resolver_calls (snd (geolocation_tdoa e i d b pl)) =
     (if spec_qualifies e (config i) b pl Tdoa then [spec_request e (config i) b pl Tdoa]
      else resolver_calls (snd (geolocation_rssi e i d b pl)))"
  using tdoaGeolocation_calls [of e i d "filterOnFineTimestamp b 3"]
  by (auto simp: geolocation_tdoa_def Let_def Suc0_le_length split: prod.splits)

lemma geolocation_wifi_calls:
  "resolver_calls (snd (geolocation_wifi e i d b pl)) =
     (if GeolocationWifi (config i) \<and> isl (wifi_extracted e (config i) pl) then []
      else if spec_qualifies e (config i) b pl Wifi then [spec_request e (config i) b pl Wifi]
      else resolver_calls (snd (geolocation_tdoa e i d b pl)))"
  by (auto simp: geolocation_wifi_def wifi_extracted_def Let_def wifiTDOAGeolocation_calls
        split: prod.splits sum.splits dest: arg_cong [where f = "\<lambda>p. resolver_calls (snd p)"])

lemma geolocation_gnss_calls:
  "resolver_calls (snd (geolocation e i d b pl)) =
     (if GeolocationGNSS (config i) \<and> isl (gnss_extracted e (config i) pl) then []
      else if spec_qualifies e (config i) b pl Gnss then [spec_request e (config i) b pl Gnss]
      else resolver_calls (snd (geolocation_wifi e i d b pl)))"
  by (auto simp: geolocation_def gnss_extracted_def Let_def gnssLR1110Geolocation_calls
        split: prod.splits sum.splits dest: arg_cong [where f = "\<lambda>p. resolver_calls (snd p)"])

lemma spec_qualifies_Gnss_buf: "spec_qualifies e c b pl Gnss = spec_qualifies e c [] pl Gnss"
  by simp

lemma geolocation_calls:
  "resolver_calls (snd (geolocation e i d b pl)) =
     (if extractor_fails e (config i) pl then []
      else case spec_selected e (config i) b pl of
             None \<Rightarrow> []
           | Some st \<Rightarrow> [spec_request e (config i) b pl st])"
  unfolding geolocation_gnss_calls geolocation_wifi_calls geolocation_tdoa_calls
    geolocation_rssi_calls extractor_fails_def spec_selected_def
  by (auto simp del: spec_qualifies.simps spec_request.simps
        simp: spec_qualifies_Gnss_buf [of e _ b])

subsection \<open>The buffer update, the result of the orchestrator and the handler\<close>

lemma updateGeolocBuffer_eq:
  "updateGeolocBuffer e i d pl s =
     (let ttl = seconds (GeolocationBufferTTL (config i)); b = updated_frames s d pl
      in case store_get_error e of
           Some err \<Rightarrow> (Inl (Wrap err ''get geoloc buffer error''), s, [BufferGet d ttl])
         | None \<Rightarrow>
             if b = [] then (Inr [], s, [BufferGet d ttl])
             else (case store_save_error e of
                     Some err \<Rightarrow>
                       (Inl (Wrap err ''save geoloc buffer error''), s,
                        [BufferGet d ttl, BufferSave d b ttl])
                   | None \<Rightarrow>
                       (Inr b, s(d \<mapsto> (b, ttl)), [BufferGet d ttl, BufferSave d b ttl])))"
  by (auto simp: updateGeolocBuffer_def GetGeolocBuffer_def SaveGeolocBuffer_def Let_def
        updated_frames_def stored_frames_def split: option.splits prod.splits)

lemma updateGeolocBuffer_Inr:
  "fst (updateGeolocBuffer e i d pl s) = Inr b \<Longrightarrow> b = updated_frames s d pl"
  by (auto simp: updateGeolocBuffer_eq Let_def split: option.splits if_splits)

lemma updateGeolocBuffer_no_calls:
  "resolver_calls (snd (snd (updateGeolocBuffer e i d pl s))) = []"
  "location_events (snd (snd (updateGeolocBuffer e i d pl s))) = []"
  by (auto simp: updateGeolocBuffer_eq Let_def split: option.splits if_splits)

lemma HandleUplinkEvent_calls:
  assumes "Geolocation (config i)"
    and "fst (updateGeolocBuffer e i (copy_array 8 (DevEui pl)) pl s) = Inr buf"
  shows "resolver_calls (snd (snd (HandleUplinkEvent e i vars pl s))) =
           resolver_calls (snd (geolocation e i (copy_array 8 (DevEui pl)) buf pl))"
  using assms updateGeolocBuffer_no_calls(1) [of e i "copy_array 8 (DevEui pl)" pl s]
  by (auto simp: HandleUplinkEvent_def Let_def split: prod.splits sum.splits option.splits)

lemma resolved_events:
  "location_events (snd (tdoaGeolocation e i d b)) = []"
  "location_events (snd (rssiGeolocation e i d b)) = []"
  "location_events (snd (gnssLR1110Geolocation e i d rx g)) = []"
  "location_events (snd (wifiTDOAGeolocation e i d rx aps)) = []"
  by (auto simp: tdoaGeolocation_def rssiGeolocation_def gnssLR1110Geolocation_def
        wifiTDOAGeolocation_def Let_def split: prod.splits list.splits option.splits)

lemma geolocation_rssi_events: "location_events (snd (geolocation_rssi e i d b pl)) = []"
  using resolved_events(2) [of e i d b]
  by (auto simp: geolocation_rssi_def Let_def split: prod.splits)

lemma geolocation_tdoa_events: "location_events (snd (geolocation_tdoa e i d b pl)) = []"
  using resolved_events(1) [of e i d "filterOnFineTimestamp b 3"]
    geolocation_rssi_events [of e i d b pl]
  by (auto simp: geolocation_tdoa_def Let_def split: prod.splits)

lemma geolocation_wifi_events: "location_events (snd (geolocation_wifi e i d b pl)) = []"
  using geolocation_tdoa_events [of e i d b pl]
  by (auto simp: geolocation_wifi_def Let_def resolved_events(4)
        split: prod.splits sum.splits dest: arg_cong [where f = "\<lambda>p. location_events (snd p)"])

lemma geolocation_events: "location_events (snd (geolocation e i d b pl)) = []"
  using geolocation_wifi_events [of e i d b pl]
  by (auto simp: geolocation_def Let_def resolved_events(3)
        split: prod.splits sum.splits dest: arg_cong [where f = "\<lambda>p. location_events (snd p)"])

lemma geolocation_rssi_fst:
  "fst (geolocation_rssi e i d b pl) =
     (if spec_qualifies e (config i) b pl Rssi
      then (concat (map (map UplinkId) b), fst (rssiGeolocation e i d b))
      else ([], None, None))"
  by (auto simp: geolocation_rssi_def Let_def Suc0_le_length uplinkIDs_frames_eq split: prod.splits)

lemma geolocation_tdoa_fst:
  "fst (geolocation_tdoa e i d b pl) =
     (if spec_qualifies e (config i) b pl Tdoa
      then (concat (map (map UplinkId) (filterOnFineTimestamp b 3)),
            fst (tdoaGeolocation e i d (filterOnFineTimestamp b 3)))
      else fst (geolocation_rssi e i d b pl))"
  by (auto simp: geolocation_tdoa_def Let_def Suc0_le_length uplinkIDs_frames_eq split: prod.splits)

lemma geolocation_wifi_fst:
  "fst (geolocation_wifi e i d b pl) =
     (if GeolocationWifi (config i) \<and> isl (wifi_extracted e (config i) pl) then ([], None, None)
      else if spec_qualifies e (config i) b pl Wifi
      then ([], fst (wifiTDOAGeolocation e i d (RxInfo pl) (projr (wifi_extracted e (config i) pl))))
      else fst (geolocation_tdoa e i d b pl))"
  by (auto simp: geolocation_wifi_def wifi_extracted_def Let_def split: prod.splits sum.splits)

lemma geolocation_gnss_fst:
  "fst (geolocation e i d b pl) =
     (if GeolocationGNSS (config i) \<and> isl (gnss_extracted e (config i) pl) then ([], None, None)
      else if spec_qualifies e (config i) b pl Gnss
      then ([], fst (gnssLR1110Geolocation e i d (RxInfo pl) (projr (gnss_extracted e (config i) pl))))
      else fst (geolocation_wifi e i d b pl))"
  by (auto simp: geolocation_def gnss_extracted_def Let_def split: prod.splits sum.splits)

lemma geolocation_fst:
  "fst (geolocation e i d b pl) =
     (if extractor_fails e (config i) pl then ([], None, None)
      else case spec_selected e (config i) b pl of
        None \<Rightarrow> ([], None, None)
      | Some Gnss \<Rightarrow>
          ([], fst (gnssLR1110Geolocation e i d (RxInfo pl) (projr (gnss_extracted e (config i) pl))))
      | Some Wifi \<Rightarrow>
          ([], fst (wifiTDOAGeolocation e i d (RxInfo pl) (projr (wifi_extracted e (config i) pl))))
      | Some Tdoa \<Rightarrow>
          (concat (map (map UplinkId) (filterOnFineTimestamp b 3)),
           fst (tdoaGeolocation e i d (filterOnFineTimestamp b 3)))
      | Some Rssi \<Rightarrow> (concat (map (map UplinkId) b), fst (rssiGeolocation e i d b)))"
  unfolding geolocation_gnss_fst geolocation_wifi_fst geolocation_tdoa_fst
    geolocation_rssi_fst extractor_fails_def spec_selected_def
  by (auto simp del: spec_qualifies.simps simp: spec_qualifies_Gnss_buf [of e _ b])

lemma resolved_no_location:
  "snd (client e (geolocationURI i) (GeolocationToken (config i))
          (case b of [f] \<Rightarrow> TDOASingleFrame f | fs \<Rightarrow> TDOAMultiFrame fs)) = Some ErrNoLocation
   \<Longrightarrow> fst (tdoaGeolocation e i d b) = (None, None)"
  "snd (client e (geolocationURI i) (GeolocationToken (config i))
          (case b of [f] \<Rightarrow> RSSISingleFrame f | fs \<Rightarrow> RSSIMultiFrame fs)) = Some ErrNoLocation
   \<Longrightarrow> fst (rssiGeolocation e i d b) = (None, None)"
  "snd (client e (geolocationURI i) (GeolocationToken (config i))
          (GNSSLR1110SingleFrame rx (GeolocationGNSSUseRxTime (config i)) g)) = Some ErrNoLocation
   \<Longrightarrow> fst (gnssLR1110Geolocation e i d rx g) = (None, None)"
  "snd (client e (geolocationURI i) (GeolocationToken (config i))
          (WifiTDOASingleFrame rx aps)) = Some ErrNoLocation
   \<Longrightarrow> fst (wifiTDOAGeolocation e i d rx aps) = (None, None)"
  by (auto simp: tdoaGeolocation_def rssiGeolocation_def gnssLR1110Geolocation_def
        wifiTDOAGeolocation_def Let_def split: prod.splits list.splits option.splits)

lemma geolocation_no_location:
  assumes "\<not> extractor_fails e (config i) pl"
    and "spec_selected e (config i) b pl = Some st"
    and "snd (client e (geolocationURI i) (GeolocationToken (config i))
               (spec_request e (config i) b pl st)) = Some ErrNoLocation"
  shows "snd (fst (geolocation e i d b pl)) = (None, None)"
proof (cases st)
  case Gnss
  with assms have "spec_qualifies e (config i) b pl Gnss"
    by (auto simp: spec_selected_def split: if_splits)
  then have "gnss_extracted e (config i) pl = Inr (projr (gnss_extracted e (config i) pl))"
    by (auto split: sum.splits)
  with assms Gnss show ?thesis
    using resolved_no_location(3) [of e i "RxInfo pl" "projr (gnss_extracted e (config i) pl)" d]
    by (auto simp: geolocation_fst split: sum.splits)
next
  case Wifi
  with assms have "spec_qualifies e (config i) b pl Wifi"
    by (auto simp: spec_selected_def split: if_splits)
  then have "wifi_extracted e (config i) pl = Inr (projr (wifi_extracted e (config i) pl))"
    by (auto split: sum.splits)
  with assms Wifi show ?thesis
    using resolved_no_location(4) [of e i "RxInfo pl" "projr (wifi_extracted e (config i) pl)" d]
    by (auto simp: geolocation_fst split: sum.splits)
next
  case Tdoa
  with assms show ?thesis
    using resolved_no_location(1) [of e i "filterOnFineTimestamp b 3" d]
    by (auto simp: geolocation_fst)
next
  case Rssi
  with assms show ?thesis
    using resolved_no_location(2) [of e i b d]
    by (auto simp: geolocation_fst)
qed

lemma HandleUplinkEvent_fst:
  assumes "Geolocation (config i)"
    and "fst (updateGeolocBuffer e i (copy_array 8 (DevEui pl)) pl s) = Inr buf"
  shows "fst (HandleUplinkEvent e i vars pl s) =
           (case snd (snd (fst (geolocation e i (copy_array 8 (DevEui pl)) buf pl))) of
              Some err \<Rightarrow> Some (Wrap err ''geolocation error'')
            | None \<Rightarrow> None)"
  using assms
  by (auto simp: HandleUplinkEvent_def Let_def split: prod.splits sum.splits option.splits)

lemma HandleUplinkEvent_events:
  assumes "Geolocation (config i)"
    and "fst (updateGeolocBuffer e i (copy_array 8 (DevEui pl)) pl s) = Inr buf"
  shows "location_events (snd (snd (HandleUplinkEvent e i vars pl s))) =
           (case fst (geolocation e i (copy_array 8 (DevEui pl)) buf pl) of
              (uplinkIDs, Some l, None) \<Rightarrow>
                [\<lparr>le_ApplicationId = ApplicationId pl, le_ApplicationName = ApplicationName pl,
                  le_DeviceName = DeviceName pl, le_DevEui = DevEui pl, le_Tags = Tags pl,
                  le_Location = l, le_UplinkIds = uplinkIDs,
                  le_FCnt = (if length uplinkIDs = 0 then FCnt pl else 0)\<rparr>]
            | _ \<Rightarrow> [])"
  using assms updateGeolocBuffer_no_calls(2) [of e i "copy_array 8 (DevEui pl)" pl s]
    geolocation_events [of e i "copy_array 8 (DevEui pl)" buf pl]
  by (auto simp: HandleUplinkEvent_def Let_def split: prod.splits sum.splits option.splits)

lemma strategy_of_spec_request [simp]: "strategy_of (spec_request e c b pl st) = st"
  by (cases st) (auto split: list.splits)

lemma request_frames_spec_request:
  "request_frames (spec_request e c b pl Tdoa) = filterOnFineTimestamp b 3"
  "request_frames (spec_request e c b pl Rssi) = b"
  by (auto split: list.splits)

lemma concat_ids_nonempty:
  "b \<noteq> [] \<Longrightarrow> frames_ok b \<Longrightarrow> concat (map (map UplinkId) b) \<noteq> []"
  by (cases b) (auto simp: frames_ok_def)

lemma frames_ok_filtered: "frames_ok (filterOnFineTimestamp b 3)"
  by (auto simp: frames_ok_def filterOnFineTimestamp_eq list_all_iff)

lemma frames_ok_updated:
  "frames_ok (stored_frames s d) \<Longrightarrow> frames_ok (updated_frames s d pl)"
  by (auto simp: frames_ok_def updated_frames_def)

lemma HandleUplinkEvent_event_run:
  assumes "ev \<in> set (location_events (snd (snd (HandleUplinkEvent e i vars pl s))))"
  shows "Geolocation (config i)
         \<and> fst (updateGeolocBuffer e i (copy_array 8 (DevEui pl)) pl s)
             = Inr (updated_frames s (copy_array 8 (DevEui pl)) pl)"
proof -
  have g: "Geolocation (config i)"
    using assms by (auto simp: HandleUplinkEvent_def Let_def split: if_splits)
  have "\<not> isl (fst (updateGeolocBuffer e i (copy_array 8 (DevEui pl)) pl s))"
    using assms g updateGeolocBuffer_no_calls(2) [of e i "copy_array 8 (DevEui pl)" pl s]
    by (auto simp: HandleUplinkEvent_def Let_def split: prod.splits sum.splits)
  then obtain b where b: "fst (updateGeolocBuffer e i (copy_array 8 (DevEui pl)) pl s) = Inr b"
    by (cases "fst (updateGeolocBuffer e i (copy_array 8 (DevEui pl)) pl s)") auto
  with updateGeolocBuffer_Inr [OF b] g show ?thesis by simp
qed

lemma store_inv_updated:
  assumes "store_inv s" and "updateGeolocBuffer e i d pl s = (r, s', fx)"
  shows "store_inv s'"
proof -
  have ok: "frames_ok (updated_frames s d pl)"
    using assms(1) by (intro frames_ok_updated) (simp add: store_inv_def)
  have "s' = s \<or> (updated_frames s d pl \<noteq> []
          \<and> s' = s(d \<mapsto> (updated_frames s d pl, seconds (GeolocationBufferTTL (config i)))))"
    using assms(2) by (auto simp: updateGeolocBuffer_eq Let_def split: option.splits if_splits)
  then show ?thesis
    using assms(1) ok by (auto simp: store_inv_def stored_frames_def)
qed

lemma HandleUplinkEvent_store:
  "fst (snd (HandleUplinkEvent e i vars pl s)) =
     (if Geolocation (config i)
      then fst (snd (updateGeolocBuffer e i (copy_array 8 (DevEui pl)) pl s)) else s)"
  by (auto simp: HandleUplinkEvent_def Let_def split: prod.splits sum.splits option.splits)

lemma reachable_store_inv: "reachable s \<Longrightarrow> store_inv s"
proof (induction rule: reachable.induct)
  case reachable_empty
  show ?case by (simp add: store_inv_def stored_frames_def frames_ok_def)
next
  case (reachable_uplink s e i vars pl r s' fx)
  have s': "s' = fst (snd (HandleUplinkEvent e i vars pl s))"
    using reachable_uplink.hyps(2) by simp
  show ?case
  proof (cases "Geolocation (config i)")
    case True
    obtain r1 fx1 where "updateGeolocBuffer e i (copy_array 8 (DevEui pl)) pl s = (r1, s', fx1)"
      using s' True by (cases "updateGeolocBuffer e i (copy_array 8 (DevEui pl)) pl s")
        (simp add: HandleUplinkEvent_store)
    with reachable_uplink.IH show ?thesis by (rule store_inv_updated)
  next
    case False
    with s' reachable_uplink.IH show ?thesis by (simp add: HandleUplinkEvent_store)
  qed
next
  case (reachable_expiry s d)
  then show ?case by (auto simp: store_inv_def stored_frames_def frames_ok_def)
qed

lemma wifi_ap_loop_sink [simp]:
  "wifi_ap_loop (e\<lparr>sink_HandleLocationEvent := k\<rparr>) aps out = wifi_ap_loop e aps out"
  by (induction e aps out rule: wifi_ap_loop.induct)
     (auto split: json.splits sum.splits)

lemma extractors_sink [simp]:
  "getBytesFromJSONObject (e\<lparr>sink_HandleLocationEvent := k\<rparr>) f js = getBytesFromJSONObject e f js"
  "getWifiAccessPointsFromJSONObject (e\<lparr>sink_HandleLocationEvent := k\<rparr>) f js
     = getWifiAccessPointsFromJSONObject e f js"
  by (simp_all add: getBytesFromJSONObject_def getWifiAccessPointsFromJSONObject_def
        split: sum.splits option.splits json.splits)

lemma resolved_sink [simp]:
  "tdoaGeolocation (e\<lparr>sink_HandleLocationEvent := k\<rparr>) i d b = tdoaGeolocation e i d b"
  "rssiGeolocation (e\<lparr>sink_HandleLocationEvent := k\<rparr>) i d b = rssiGeolocation e i d b"
  "gnssLR1110Geolocation (e\<lparr>sink_HandleLocationEvent := k\<rparr>) i d rx g
     = gnssLR1110Geolocation e i d rx g"
  "wifiTDOAGeolocation (e\<lparr>sink_HandleLocationEvent := k\<rparr>) i d rx aps
     = wifiTDOAGeolocation e i d rx aps"
  by (simp_all add: tdoaGeolocation_def rssiGeolocation_def gnssLR1110Geolocation_def
        wifiTDOAGeolocation_def)

lemma geolocation_rssi_sink [simp]:
  "geolocation_rssi (e\<lparr>sink_HandleLocationEvent := k\<rparr>) i d b pl = geolocation_rssi e i d b pl"
  by (simp add: geolocation_rssi_def Let_def split: sum.splits)

lemma geolocation_tdoa_sink [simp]:
  "geolocation_tdoa (e\<lparr>sink_HandleLocationEvent := k\<rparr>) i d b pl = geolocation_tdoa e i d b pl"
  by (simp add: geolocation_tdoa_def Let_def split: sum.splits)

lemma geolocation_wifi_sink [simp]:
  "geolocation_wifi (e\<lparr>sink_HandleLocationEvent := k\<rparr>) i d b pl = geolocation_wifi e i d b pl"
  by (simp add: geolocation_wifi_def Let_def split: sum.splits)

lemma geolocation_sink [simp]:
  "geolocation (e\<lparr>sink_HandleLocationEvent := k\<rparr>) i d b pl = geolocation e i d b pl"
  by (simp add: geolocation_def Let_def split: sum.splits)

lemma store_sink [simp]:
  "GetGeolocBuffer (e\<lparr>sink_HandleLocationEvent := k\<rparr>) d t s = GetGeolocBuffer e d t s"
  "SaveGeolocBuffer (e\<lparr>sink_HandleLocationEvent := k\<rparr>) d b t s = SaveGeolocBuffer e d b t s"
  by (simp_all add: GetGeolocBuffer_def SaveGeolocBuffer_def)

lemma updateGeolocBuffer_sink [simp]:
  "updateGeolocBuffer (e\<lparr>sink_HandleLocationEvent := k\<rparr>) i d pl s = updateGeolocBuffer e i d pl s"
  by (simp add: updateGeolocBuffer_def Let_def split: sum.splits prod.splits)

lemma HandleUplinkEvent_fst_eq:
  "fst (HandleUplinkEvent e i vars pl s) =
     (if Geolocation (config i) then
        (case fst (updateGeolocBuffer e i (copy_array 8 (DevEui pl)) pl s) of
           Inl err \<Rightarrow> Some (Wrap err ''update geolocation buffer error'')
         | Inr buf \<Rightarrow>
             (case snd (snd (fst (geolocation e i (copy_array 8 (DevEui pl)) buf pl))) of
                Some err \<Rightarrow> Some (Wrap err ''geolocation error'')
              | None \<Rightarrow> None))
      else None)"
  by (auto simp: HandleUplinkEvent_def Let_def split: prod.splits sum.splits option.splits)

lemma sink_effect_event:
  "SinkLocationEvent vars ev \<in> set fx \<Longrightarrow> ev \<in> set (location_events fx)"
  by (induction fx rule: location_events.induct) auto

lemma wifi_ap_loop_well_formed:
  "list_all (ap_well_formed e) aps \<Longrightarrow>
   wifi_ap_loop e aps out =
     Inr (out @ map (\<lambda>a. \<lparr>MacAddress = copy_array 6 (mac_decoded e a),
                          SignalStrength = signal_strength e a\<rparr>) aps)"
proof (induction aps arbitrary: out)
  case Nil
  show ?case by simp
next
  case (Cons a aps)
  then show ?case
    by (auto simp: ap_well_formed_def mac_decoded_def signal_strength_def
          split: json.splits sum.splits)
qed

subsection \<open>The metadata filter\<close>

text \<open>
  Claim C7. \<open>filterOnFineTimestamp\<close> is a total function that computes what the
  specification says: in every frame it keeps exactly the receptions whose fine timestamp
  is present, it drops every frame that keeps fewer than \<open>minPerFrame\<close> of them, and the
  frames and the receptions that survive stay in their order (the result is a
  \<open>filter\<close> of a \<open>map\<close> of \<open>filter\<close>s of the input).
\<close>

theorem filterOnFineTimestamp_refines_spec:
  "filterOnFineTimestamp buffer minPerFrame = filter_on_fine_timestamp_spec buffer minPerFrame"
  by (simp add: filterOnFineTimestamp_def filter_frames_eq)

subsection \<open>The handler when geolocation is disabled\<close>

text \<open>
  Claim C9. When the master flag \<open>Geolocation\<close> is false, \<open>HandleUplinkEvent\<close> returns
  success, leaves the store as it was and performs no effect at all: no read or write
  of the buffer, no resolver call, no location event.
\<close>

theorem HandleUplinkEvent_disabled_inert:
  "\<not> Geolocation (config i) \<Longrightarrow> HandleUplinkEvent e i vars pl s = (None, s, [])"
  by (simp add: HandleUplinkEvent_def)

theorem HandleUplinkEvent_disabled_inert_witness:
  "\<not> Geolocation (config (New (test_config\<lparr>Geolocation := False, GeolocationTDOA := True\<rparr>)))
   \<and> HandleUplinkEvent test_env (New (test_config\<lparr>Geolocation := False, GeolocationTDOA := True\<rparr>))
        [] test_uplink Map.empty = (None, Map.empty, [])"
  using HandleUplinkEvent_disabled_inert
          [of "New (test_config\<lparr>Geolocation := False, GeolocationTDOA := True\<rparr>)"
              test_env "[]" test_uplink Map.empty]
  by (simp add: New_def test_config_def)

subsection \<open>The buffer update\<close>

text \<open>
  Claim C6. The buffer update returns the stored frames with the frame of the uplink
  appended exactly when that frame has three receptions or more. It writes the store
  exactly when the read succeeded and the resulting sequence is not empty, and a write
  that succeeds stores that sequence under the configured TTL. In every store the
  handler can reach from the empty one, a stored buffer is not empty and each of its
  frames has three receptions or more, before and after the update. An uplink with fewer
  than three receptions leaves the frames stored for every device as they were.
\<close>

theorem buffer_update_invariants:
  assumes "reachable s" and "updateGeolocBuffer e i d pl s = (r, s', fx)"
  shows "(\<forall>b. r = Inr b \<longrightarrow>
            b = stored_frames s d @ (if 3 \<le> length (RxInfo pl) then [RxInfo pl] else []))
       \<and> ((\<exists>b t. BufferSave d b t \<in> set fx) \<longleftrightarrow>
            store_get_error e = None \<and> updated_frames s d pl \<noteq> [])
       \<and> s' = (if store_get_error e = None \<and> store_save_error e = None
                   \<and> updated_frames s d pl \<noteq> []
                then s(d \<mapsto> (updated_frames s d pl, seconds (GeolocationBufferTTL (config i))))
                else s)
       \<and> store_inv s \<and> store_inv s'
       \<and> (length (RxInfo pl) < 3 \<longrightarrow> (\<forall>d'. stored_frames s' d' = stored_frames s d'))"
proof (intro conjI)
  show "\<forall>b. r = Inr b \<longrightarrow>
            b = stored_frames s d @ (if 3 \<le> length (RxInfo pl) then [RxInfo pl] else [])"
    using assms(2) updateGeolocBuffer_Inr [of e i d pl s] by (auto simp: updated_frames_def)
  show "(\<exists>b t. BufferSave d b t \<in> set fx) \<longleftrightarrow>
            store_get_error e = None \<and> updated_frames s d pl \<noteq> []"
    using assms(2) by (auto simp: updateGeolocBuffer_eq Let_def split: option.splits if_splits)
  show s': "s' = (if store_get_error e = None \<and> store_save_error e = None
                   \<and> updated_frames s d pl \<noteq> []
                then s(d \<mapsto> (updated_frames s d pl, seconds (GeolocationBufferTTL (config i))))
                else s)"
    using assms(2) by (auto simp: updateGeolocBuffer_eq Let_def split: option.splits if_splits)
  show inv: "store_inv s"
    using assms(1) by (rule reachable_store_inv)
  show "store_inv s'"
    using inv assms(2) by (rule store_inv_updated)
  show "length (RxInfo pl) < 3 \<longrightarrow> (\<forall>d'. stored_frames s' d' = stored_frames s d')"
    unfolding s' by (auto simp: updated_frames_def stored_frames_def)
qed

text \<open>
  The update on the empty store with the three receptions of the test uplink, then an
  uplink with two receptions on the store that results.
\<close>

theorem buffer_update_invariants_witness:
  "reachable (Map.empty :: store)
   \<and> updateGeolocBuffer test_env (New (test_config\<lparr>GeolocationBufferTTL := 60\<rparr>)) test_dev_eui
        test_uplink Map.empty
      = (Inr [test_frame], [test_dev_eui \<mapsto> ([test_frame], 60000000000)],
         [BufferGet test_dev_eui 60000000000, BufferSave test_dev_eui [test_frame] 60000000000])
   \<and> store_inv [test_dev_eui \<mapsto> ([test_frame], 60000000000)]
   \<and> stored_frames
        (fst (snd (updateGeolocBuffer test_env (New (test_config\<lparr>GeolocationBufferTTL := 60\<rparr>))
                     test_dev_eui (test_uplink\<lparr>RxInfo := take 2 test_frame\<rparr>)
                     [test_dev_eui \<mapsto> ([test_frame], 60000000000)])))
        test_dev_eui
      = [test_frame]"
proof -
  let ?i = "New (test_config\<lparr>GeolocationBufferTTL := 60\<rparr>)"
  let ?s1 = "[test_dev_eui \<mapsto> ([test_frame], 60000000000 :: int)]"
  let ?fx = "[BufferGet test_dev_eui 60000000000, BufferSave test_dev_eui [test_frame] 60000000000]"
  let ?short = "test_uplink\<lparr>RxInfo := take 2 test_frame\<rparr>"
  let ?U = "updateGeolocBuffer test_env ?i test_dev_eui ?short ?s1"
  have r0: "reachable (Map.empty :: store)"
    by (rule reachable_empty)
  have ttl: "seconds (GeolocationBufferTTL (config ?i)) = 60000000000"
    by code_simp
  have upd: "updated_frames Map.empty test_dev_eui test_uplink = [test_frame]"
    by code_simp
  have e: "store_get_error test_env = None" "store_save_error test_env = None"
    by code_simp+
  have u1: "updateGeolocBuffer test_env ?i test_dev_eui test_uplink Map.empty
              = (Inr [test_frame], ?s1, ?fx)"
    unfolding updateGeolocBuffer_eq Let_def ttl upd e by simp
  have inv: "store_inv ?s1"
    using buffer_update_invariants [OF r0 u1] by blast
  have dev: "copy_array 8 (DevEui test_uplink) = test_dev_eui"
    by code_simp
  have g: "Geolocation (config ?i)"
    by code_simp
  have "fst (snd (HandleUplinkEvent test_env ?i [] test_uplink Map.empty)) = ?s1"
    by (simp add: HandleUplinkEvent_store g dev u1)
  then have "HandleUplinkEvent test_env ?i [] test_uplink Map.empty
               = (fst (HandleUplinkEvent test_env ?i [] test_uplink Map.empty), ?s1,
                  snd (snd (HandleUplinkEvent test_env ?i [] test_uplink Map.empty)))"
    by (metis prod.collapse)
  with r0 have r1: "reachable ?s1"
    by (rule reachable_uplink)
  have u2: "?U = (fst ?U, fst (snd ?U), snd (snd ?U))"
    by simp
  have short: "length (RxInfo ?short) < 3"
    by code_simp
  have "stored_frames (fst (snd ?U)) test_dev_eui = stored_frames ?s1 test_dev_eui"
    using buffer_update_invariants [OF r1 u2] short by blast
  moreover have "stored_frames ?s1 test_dev_eui = [test_frame]"
    by (simp add: stored_frames_def)
  ultimately show ?thesis
    using r0 u1 inv by simp
qed

subsection \<open>The WiFi extractor\<close>

text \<open>
  Claim C10. The WiFi extractor does not check that a \<^verbatim>\<open>macAddress\<close> decodes to six
  bytes. On a list whose entries are objects with a \<^verbatim>\<open>macAddress\<close> that decodes, to \<open>n\<close>
  bytes, and a numeric \<^verbatim>\<open>signalStrength\<close>, the extraction succeeds; the address of each
  access point is the first \<open>min n 6\<close> decoded bytes followed by zeros up to six bytes.
\<close>

theorem wifi_extractor_mac_not_validated:
  assumes "js \<noteq> []" and "json_Unmarshal e js = Inr v"
    and "map_of v field = Some (JArray aps)" and "list_all (ap_well_formed e) aps"
  shows "getWifiAccessPointsFromJSONObject e field js =
           Inr (map (\<lambda>a. \<lparr>MacAddress =
                             take (min (length (mac_decoded e a)) 6) (mac_decoded e a)
                             @ replicate (6 - min (length (mac_decoded e a)) 6) 0,
                           SignalStrength = signal_strength e a\<rparr>) aps)"
  using assms
  by (simp add: getWifiAccessPointsFromJSONObject_def wifi_ap_loop_well_formed copy_array_def
        min_def)

text \<open>
  An address of three bytes is padded with zeros, one of eight bytes is cut to six.
\<close>

theorem wifi_extractor_mac_not_validated_witness:
  "test_json_macs \<noteq> []
   \<and> json_Unmarshal test_env test_json_macs
       = Inr [(''wifi_aps'',
               JArray [JObject [(''macAddress'', JString ''AQID''),
                                (''signalStrength'', JFloat 0xC024000000000000)],
                       JObject [(''macAddress'', JString ''AQIDBAUGBwg=''),
                                (''signalStrength'', JFloat 0xC034000000000000)]])]
   \<and> list_all (ap_well_formed test_env)
        [JObject [(''macAddress'', JString ''AQID''),
                  (''signalStrength'', JFloat 0xC024000000000000)],
         JObject [(''macAddress'', JString ''AQIDBAUGBwg=''),
                  (''signalStrength'', JFloat 0xC034000000000000)]]
   \<and> base64_DecodeString test_env ''AQID'' = Inr [1, 2, 3]
   \<and> base64_DecodeString test_env ''AQIDBAUGBwg='' = Inr [1, 2, 3, 4, 5, 6, 7, 8]
   \<and> getWifiAccessPointsFromJSONObject test_env ''wifi_aps'' test_json_macs
       = Inr [\<lparr>MacAddress = [1, 2, 3, 0, 0, 0], SignalStrength = - 10\<rparr>,
              \<lparr>MacAddress = [1, 2, 3, 4, 5, 6], SignalStrength = - 20\<rparr>]"
proof -
  let ?a1 = "JObject [(''macAddress'', JString ''AQID''),
                      (''signalStrength'', JFloat 0xC024000000000000)]"
  let ?a2 = "JObject [(''macAddress'', JString ''AQIDBAUGBwg=''),
                      (''signalStrength'', JFloat 0xC034000000000000)]"
  have h1: "test_json_macs \<noteq> []"
    by code_simp
  have h2: "json_Unmarshal test_env test_json_macs = Inr [(''wifi_aps'', JArray [?a1, ?a2])]"
    by code_simp
  have h3: "map_of [(''wifi_aps'', JArray [?a1, ?a2])] ''wifi_aps'' = Some (JArray [?a1, ?a2])"
    by simp
  have h4: "list_all (ap_well_formed test_env) [?a1, ?a2]"
    by code_simp
  have d: "mac_decoded test_env ?a1 = [1, 2, 3]"
    "mac_decoded test_env ?a2 = [1, 2, 3, 4, 5, 6, 7, 8]"
    "signal_strength test_env ?a1 = - 10" "signal_strength test_env ?a2 = - 20"
    "base64_DecodeString test_env ''AQID'' = Inr [1, 2, 3]"
    "base64_DecodeString test_env ''AQIDBAUGBwg='' = Inr [1, 2, 3, 4, 5, 6, 7, 8]"
    by code_simp+
  have r: "replicate 3 (0 :: byte) = [0, 0, 0]"
    by code_simp
  from wifi_extractor_mac_not_validated [OF h1 h2 h3 h4] h1 h2 h4 d r
  show ?thesis by simp
qed

subsection \<open>A resolver error in the WiFi strategy\<close>

text \<open>
  Claim C1 says that an error of the WiFi resolver call other than the sentinel reaches
  the dispatcher and that no location event is emitted. The code does otherwise: with
  WiFi enabled, one access point in the object and a resolver whose call fails with a
  transport error, \<open>HandleUplinkEvent\<close> returns nil and gives the sink a location event
  with the location the client returned beside its error. The same resolver error in
  the TDOA strategy is wrapped and returned.
\<close>

theorem wifi_resolver_error_swallowed:
  "fst (HandleUplinkEvent (test_env\<lparr>client := test_client_down\<rparr>)
          (New (test_config\<lparr>GeolocationWifi := True\<rparr>)) []
          (test_uplink\<lparr>ObjectJson := test_json_wifi\<rparr>) Map.empty) = None
   \<and> location_events
        (snd (snd (HandleUplinkEvent (test_env\<lparr>client := test_client_down\<rparr>)
          (New (test_config\<lparr>GeolocationWifi := True\<rparr>)) []
          (test_uplink\<lparr>ObjectJson := test_json_wifi\<rparr>) Map.empty)))
      = [\<lparr>le_ApplicationId = 1, le_ApplicationName = ''test-app'',
          le_DeviceName = ''test-device'', le_DevEui = [1, 2, 3, 4, 5, 6, 7, 8], le_Tags = [],
          le_Location = zero_location, le_UplinkIds = [], le_FCnt = 10\<rparr>]
   \<and> fst (HandleUplinkEvent (test_env\<lparr>client := test_client_down\<rparr>)
          (New (test_config\<lparr>GeolocationTDOA := True\<rparr>)) [] test_uplink Map.empty)
      = Some (Wrap (Wrap (Errorf ''http post error'') ''geolocation error'') ''geolocation error'')"
  by code_simp

subsection \<open>A failing extractor\<close>

text \<open>
  Claim C2, amended. When the buffer update has succeeded and an extractor that is run
  fails (the GNSS extractor with GNSS enabled, or the WiFi extractor with WiFi enabled
  when GNSS has not qualified), \<open>HandleUplinkEvent\<close> returns success, and the
  orchestrator stops there: no strategy makes a resolver call, the lower-priority ones
  included, and no location event is emitted.
\<close>

theorem extractor_failure_stops_orchestrator:
  assumes "Geolocation (config i)"
    and "fst (updateGeolocBuffer e i (copy_array 8 (DevEui pl)) pl s) = Inr buf"
    and "extractor_fails e (config i) pl"
  shows "fst (HandleUplinkEvent e i vars pl s) = None
         \<and> resolver_calls (snd (snd (HandleUplinkEvent e i vars pl s))) = []
         \<and> location_events (snd (snd (HandleUplinkEvent e i vars pl s))) = []"
  using assms
  by (simp add: HandleUplinkEvent_fst HandleUplinkEvent_events HandleUplinkEvent_calls
        geolocation_fst geolocation_calls)

text \<open>
  GNSS and RSSI enabled, and an object whose GNSS field is a number.
\<close>

theorem extractor_failure_stops_orchestrator_witness:
  "Geolocation (config (New (test_config\<lparr>GeolocationGNSS := True, GeolocationRSSI := True\<rparr>)))
   \<and> fst (updateGeolocBuffer test_env
             (New (test_config\<lparr>GeolocationGNSS := True, GeolocationRSSI := True\<rparr>))
             (copy_array 8 (DevEui (test_uplink\<lparr>ObjectJson := test_json_mismatch\<rparr>)))
             (test_uplink\<lparr>ObjectJson := test_json_mismatch\<rparr>) Map.empty)
      = Inr [test_frame]
   \<and> extractor_fails test_env
        (config (New (test_config\<lparr>GeolocationGNSS := True, GeolocationRSSI := True\<rparr>)))
        (test_uplink\<lparr>ObjectJson := test_json_mismatch\<rparr>)
   \<and> fst (HandleUplinkEvent test_env
             (New (test_config\<lparr>GeolocationGNSS := True, GeolocationRSSI := True\<rparr>)) []
             (test_uplink\<lparr>ObjectJson := test_json_mismatch\<rparr>) Map.empty) = None
   \<and> resolver_calls
        (snd (snd (HandleUplinkEvent test_env
                     (New (test_config\<lparr>GeolocationGNSS := True, GeolocationRSSI := True\<rparr>)) []
                     (test_uplink\<lparr>ObjectJson := test_json_mismatch\<rparr>) Map.empty))) = []
   \<and> location_events
        (snd (snd (HandleUplinkEvent test_env
                     (New (test_config\<lparr>GeolocationGNSS := True, GeolocationRSSI := True\<rparr>)) []
                     (test_uplink\<lparr>ObjectJson := test_json_mismatch\<rparr>) Map.empty))) = []"
proof -
  let ?i = "New (test_config\<lparr>GeolocationGNSS := True, GeolocationRSSI := True\<rparr>)"
  let ?pl = "test_uplink\<lparr>ObjectJson := test_json_mismatch\<rparr>"
  have h1: "Geolocation (config ?i)"
    by code_simp
  have h2: "fst (updateGeolocBuffer test_env ?i (copy_array 8 (DevEui ?pl)) ?pl Map.empty)
              = Inr [test_frame]"
    by code_simp
  have h3: "extractor_fails test_env (config ?i) ?pl"
    by code_simp
  from extractor_failure_stops_orchestrator [OF h1 h2 h3, of "[]"] h1 h2 h3
  show ?thesis by simp
qed

text \<open>
  Claim C2 as stated fails: it has the strategies after the failing one still evaluated.
  On the input above the GNSS extractor fails, the blocks after GNSS would call the
  resolver for RSSI on the one buffered frame, and the handler calls nothing.
\<close>

theorem extractor_failure_fallthrough_counterexample:
  "isl (gnss_extracted test_env (test_config\<lparr>GeolocationGNSS := True, GeolocationRSSI := True\<rparr>)
          (test_uplink\<lparr>ObjectJson := test_json_mismatch\<rparr>))
   \<and> resolver_calls
        (snd (geolocation_wifi test_env
                (New (test_config\<lparr>GeolocationGNSS := True, GeolocationRSSI := True\<rparr>))
                test_dev_eui [test_frame] (test_uplink\<lparr>ObjectJson := test_json_mismatch\<rparr>)))
      = [RSSISingleFrame test_frame]
   \<and> fst (updateGeolocBuffer test_env
             (New (test_config\<lparr>GeolocationGNSS := True, GeolocationRSSI := True\<rparr>))
             test_dev_eui (test_uplink\<lparr>ObjectJson := test_json_mismatch\<rparr>) Map.empty)
      = Inr [test_frame]
   \<and> resolver_calls
        (snd (snd (HandleUplinkEvent test_env
                     (New (test_config\<lparr>GeolocationGNSS := True, GeolocationRSSI := True\<rparr>)) []
                     (test_uplink\<lparr>ObjectJson := test_json_mismatch\<rparr>) Map.empty)))
      = []"
  by code_simp

subsection \<open>The priority of the strategies\<close>

text \<open>
  Claim C3, amended. When the buffer update has succeeded and no extractor that is run
  fails, the resolver calls of the handler are exactly the request of the first strategy
  that qualifies in the order GNSS, WiFi, TDOA, RSSI, and none when no strategy
  qualifies. When the resolver answers that request with the no-location sentinel,
  \<open>HandleUplinkEvent\<close> returns success and no location event is emitted; by the first
  part no lower-priority strategy has been attempted.
\<close>

theorem first_qualifying_strategy_only:
  assumes "Geolocation (config i)"
    and "fst (updateGeolocBuffer e i (copy_array 8 (DevEui pl)) pl s) = Inr buf"
    and "\<not> extractor_fails e (config i) pl"
  shows "resolver_calls (snd (snd (HandleUplinkEvent e i vars pl s))) =
           (case spec_selected e (config i) buf pl of
              None \<Rightarrow> []
            | Some st \<Rightarrow> [spec_request e (config i) buf pl st])
         \<and> (\<forall>st. spec_selected e (config i) buf pl = Some st
                  \<and> snd (client e (geolocationURI i) (GeolocationToken (config i))
                          (spec_request e (config i) buf pl st)) = Some ErrNoLocation
               \<longrightarrow> fst (HandleUplinkEvent e i vars pl s) = None
                   \<and> location_events (snd (snd (HandleUplinkEvent e i vars pl s))) = [])"
proof (intro conjI allI impI)
  show "resolver_calls (snd (snd (HandleUplinkEvent e i vars pl s))) =
           (case spec_selected e (config i) buf pl of
              None \<Rightarrow> []
            | Some st \<Rightarrow> [spec_request e (config i) buf pl st])"
    using assms by (simp add: HandleUplinkEvent_calls geolocation_calls)
next
  fix st
  assume sel: "spec_selected e (config i) buf pl = Some st
                  \<and> snd (client e (geolocationURI i) (GeolocationToken (config i))
                          (spec_request e (config i) buf pl st)) = Some ErrNoLocation"
  have nl: "snd (fst (geolocation e i (copy_array 8 (DevEui pl)) buf pl)) = (None, None)"
    using assms(3) sel by (intro geolocation_no_location [of e i pl buf st]) auto
  show "fst (HandleUplinkEvent e i vars pl s) = None"
    using assms(1,2) nl by (simp add: HandleUplinkEvent_fst)
  show "location_events (snd (snd (HandleUplinkEvent e i vars pl s))) = []"
    using assms(1,2) nl by (auto simp: HandleUplinkEvent_events split: prod.splits option.splits)
qed

text \<open>
  WiFi and TDOA both qualify and the resolver has no location: only the WiFi request is
  made, and there is no event.
\<close>

theorem first_qualifying_strategy_only_witness:
  "Geolocation (config (New (test_config\<lparr>GeolocationWifi := True, GeolocationTDOA := True\<rparr>)))
   \<and> fst (updateGeolocBuffer (test_env\<lparr>client := test_client_no_location\<rparr>)
             (New (test_config\<lparr>GeolocationWifi := True, GeolocationTDOA := True\<rparr>))
             (copy_array 8 (DevEui (test_uplink\<lparr>ObjectJson := test_json_wifi\<rparr>)))
             (test_uplink\<lparr>ObjectJson := test_json_wifi\<rparr>) Map.empty)
      = Inr [test_frame]
   \<and> \<not> extractor_fails (test_env\<lparr>client := test_client_no_location\<rparr>)
        (config (New (test_config\<lparr>GeolocationWifi := True, GeolocationTDOA := True\<rparr>)))
        (test_uplink\<lparr>ObjectJson := test_json_wifi\<rparr>)
   \<and> spec_qualifies (test_env\<lparr>client := test_client_no_location\<rparr>)
        (test_config\<lparr>GeolocationWifi := True, GeolocationTDOA := True\<rparr>) [test_frame]
        (test_uplink\<lparr>ObjectJson := test_json_wifi\<rparr>) Tdoa
   \<and> resolver_calls
        (snd (snd (HandleUplinkEvent (test_env\<lparr>client := test_client_no_location\<rparr>)
                     (New (test_config\<lparr>GeolocationWifi := True, GeolocationTDOA := True\<rparr>)) []
                     (test_uplink\<lparr>ObjectJson := test_json_wifi\<rparr>) Map.empty)))
      = [WifiTDOASingleFrame test_frame
           [\<lparr>MacAddress = [1, 1, 1, 1, 1, 1], SignalStrength = - 10\<rparr>]]
   \<and> fst (HandleUplinkEvent (test_env\<lparr>client := test_client_no_location\<rparr>)
             (New (test_config\<lparr>GeolocationWifi := True, GeolocationTDOA := True\<rparr>)) []
             (test_uplink\<lparr>ObjectJson := test_json_wifi\<rparr>) Map.empty) = None
   \<and> location_events
        (snd (snd (HandleUplinkEvent (test_env\<lparr>client := test_client_no_location\<rparr>)
                     (New (test_config\<lparr>GeolocationWifi := True, GeolocationTDOA := True\<rparr>)) []
                     (test_uplink\<lparr>ObjectJson := test_json_wifi\<rparr>) Map.empty))) = []"
proof -
  let ?e = "test_env\<lparr>client := test_client_no_location\<rparr>"
  let ?i = "New (test_config\<lparr>GeolocationWifi := True, GeolocationTDOA := True\<rparr>)"
  let ?pl = "test_uplink\<lparr>ObjectJson := test_json_wifi\<rparr>"
  have h1: "Geolocation (config ?i)"
    by code_simp
  have h2: "fst (updateGeolocBuffer ?e ?i (copy_array 8 (DevEui ?pl)) ?pl Map.empty)
              = Inr [test_frame]"
    by code_simp
  have h3: "\<not> extractor_fails ?e (config ?i) ?pl"
    by code_simp
  have q: "spec_qualifies ?e (test_config\<lparr>GeolocationWifi := True, GeolocationTDOA := True\<rparr>)
             [test_frame] ?pl Tdoa"
    by code_simp
  have sel: "spec_selected ?e (config ?i) [test_frame] ?pl = Some Wifi"
    by code_simp
  have req: "spec_request ?e (config ?i) [test_frame] ?pl Wifi
               = WifiTDOASingleFrame test_frame
                   [\<lparr>MacAddress = [1, 1, 1, 1, 1, 1], SignalStrength = - 10\<rparr>]"
    by code_simp
  have nl: "snd (client ?e (geolocationURI ?i) (GeolocationToken (config ?i))
                  (spec_request ?e (config ?i) [test_frame] ?pl Wifi)) = Some ErrNoLocation"
    by code_simp
  from first_qualifying_strategy_only [OF h1 h2 h3, of "[]"] sel nl
  have "resolver_calls (snd (snd (HandleUplinkEvent ?e ?i [] ?pl Map.empty)))
          = [spec_request ?e (config ?i) [test_frame] ?pl Wifi]"
    and "fst (HandleUplinkEvent ?e ?i [] ?pl Map.empty) = None"
    and "location_events (snd (snd (HandleUplinkEvent ?e ?i [] ?pl Map.empty))) = []"
    by auto
  with h1 h2 h3 q req show ?thesis by simp
qed

text \<open>
  Claim C3 as stated fails on an uplink whose WiFi extractor fails: TDOA is the first
  strategy that qualifies (WiFi enabled, its field a string and not a list; TDOA enabled
  with one frame of three fine timestamps), and no resolver call is made.
\<close>

theorem first_qualifying_strategy_counterexample:
  "spec_selected test_env (test_config\<lparr>GeolocationWifi := True, GeolocationTDOA := True\<rparr>)
      [test_frame] (test_uplink\<lparr>ObjectJson := test_json_mismatch\<rparr>) = Some Tdoa
   \<and> fst (updateGeolocBuffer test_env
             (New (test_config\<lparr>GeolocationWifi := True, GeolocationTDOA := True\<rparr>))
             test_dev_eui (test_uplink\<lparr>ObjectJson := test_json_mismatch\<rparr>) Map.empty)
      = Inr [test_frame]
   \<and> resolver_calls
        (snd (snd (HandleUplinkEvent test_env
                     (New (test_config\<lparr>GeolocationWifi := True, GeolocationTDOA := True\<rparr>)) []
                     (test_uplink\<lparr>ObjectJson := test_json_mismatch\<rparr>) Map.empty)))
      = []"
  by code_simp

subsection \<open>The minimum buffer size\<close>

text \<open>
  Claim C4, amended. With \<open>k\<close> the minimum buffer size, the orchestrator attempts TDOA
  exactly when TDOA is enabled, neither GNSS nor WiFi is attempted, no extractor that is
  run fails, and the buffer filtered on three fine timestamps has at least \<open>max 1 k\<close>
  frames. It attempts RSSI exactly when RSSI is enabled, none of GNSS, WiFi and TDOA is
  attempted, no extractor that is run fails, and the buffer has at least \<open>max 1 k\<close>
  frames.
\<close>

theorem min_buffer_gating:
  "(attempts (snd (geolocation e i d buf pl)) Tdoa \<longleftrightarrow>
      GeolocationTDOA (config i)
      \<and> \<not> attempts (snd (geolocation e i d buf pl)) Gnss
      \<and> \<not> attempts (snd (geolocation e i d buf pl)) Wifi
      \<and> \<not> extractor_fails e (config i) pl
      \<and> max 1 (GeolocationMinBufferSize (config i)) \<le> int (length (filterOnFineTimestamp buf 3)))
   \<and> (attempts (snd (geolocation e i d buf pl)) Rssi \<longleftrightarrow>
      GeolocationRSSI (config i)
      \<and> \<not> attempts (snd (geolocation e i d buf pl)) Gnss
      \<and> \<not> attempts (snd (geolocation e i d buf pl)) Wifi
      \<and> \<not> attempts (snd (geolocation e i d buf pl)) Tdoa
      \<and> \<not> extractor_fails e (config i) pl
      \<and> max 1 (GeolocationMinBufferSize (config i)) \<le> int (length buf))"
  unfolding attempts_def geolocation_calls spec_selected_def
  by (auto simp del: spec_request.simps)

text \<open>
  With \<open>k = 2\<close>: two frames with fine timestamps give a TDOA attempt, one frame gives
  neither TDOA nor RSSI, and two frames of which one has two fine timestamps give RSSI.
\<close>

theorem min_buffer_gating_witness:
  "attempts
     (snd (geolocation test_env
             (New (test_config\<lparr>GeolocationTDOA := True, GeolocationRSSI := True,
                                GeolocationMinBufferSize := 2\<rparr>))
             test_dev_eui [test_frame_old, test_frame] test_uplink)) Tdoa
   \<and> \<not> attempts
     (snd (geolocation test_env
             (New (test_config\<lparr>GeolocationTDOA := True, GeolocationRSSI := True,
                                GeolocationMinBufferSize := 2\<rparr>))
             test_dev_eui [test_frame] test_uplink)) Tdoa
   \<and> \<not> attempts
     (snd (geolocation test_env
             (New (test_config\<lparr>GeolocationTDOA := True, GeolocationRSSI := True,
                                GeolocationMinBufferSize := 2\<rparr>))
             test_dev_eui [test_frame] test_uplink)) Rssi
   \<and> attempts
     (snd (geolocation test_env
             (New (test_config\<lparr>GeolocationTDOA := True, GeolocationRSSI := True,
                                GeolocationMinBufferSize := 2\<rparr>))
             test_dev_eui [test_frame_two_timestamps, test_frame] test_uplink)) Rssi"
proof -
  let ?i = "New (test_config\<lparr>GeolocationTDOA := True, GeolocationRSSI := True,
                              GeolocationMinBufferSize := 2\<rparr>)"
  have c: "GeolocationTDOA (config ?i)" "GeolocationRSSI (config ?i)"
    "GeolocationMinBufferSize (config ?i) = 2"
    "\<not> extractor_fails test_env (config ?i) test_uplink"
    by code_simp+
  have l: "length (filterOnFineTimestamp [test_frame_old, test_frame] 3) = 2"
    "length (filterOnFineTimestamp [test_frame] 3) = 1"
    "length (filterOnFineTimestamp [test_frame_two_timestamps, test_frame] 3) = 1"
    by code_simp+
  have g: "\<And>b. \<not> attempts (snd (geolocation test_env ?i test_dev_eui b test_uplink)) Gnss"
    "\<And>b. \<not> attempts (snd (geolocation test_env ?i test_dev_eui b test_uplink)) Wifi"
    unfolding attempts_def geolocation_calls spec_selected_def
    by (auto simp: New_def test_config_def simp del: spec_request.simps)
  show ?thesis
    using min_buffer_gating [of test_env ?i test_dev_eui "[test_frame_old, test_frame]" test_uplink]
      min_buffer_gating [of test_env ?i test_dev_eui "[test_frame]" test_uplink]
      min_buffer_gating [of test_env ?i test_dev_eui "[test_frame_two_timestamps, test_frame]" test_uplink]
      c l g
    by simp
qed

text \<open>
  Claim C4 as stated fails on an uplink whose GNSS extractor fails: TDOA is enabled,
  neither GNSS nor WiFi is attempted, the filtered buffer has one frame with \<open>k = 0\<close>,
  and TDOA is not attempted.
\<close>

theorem min_buffer_gating_counterexample:
  "GeolocationTDOA (config (New (test_config\<lparr>GeolocationGNSS := True, GeolocationTDOA := True\<rparr>)))
   \<and> \<not> attempts
          (snd (geolocation test_env
                  (New (test_config\<lparr>GeolocationGNSS := True, GeolocationTDOA := True\<rparr>))
                  test_dev_eui [test_frame] (test_uplink\<lparr>ObjectJson := test_json_mismatch\<rparr>)))
          Gnss
   \<and> \<not> attempts
          (snd (geolocation test_env
                  (New (test_config\<lparr>GeolocationGNSS := True, GeolocationTDOA := True\<rparr>))
                  test_dev_eui [test_frame] (test_uplink\<lparr>ObjectJson := test_json_mismatch\<rparr>)))
          Wifi
   \<and> max 1 (GeolocationMinBufferSize
               (config (New (test_config\<lparr>GeolocationGNSS := True, GeolocationTDOA := True\<rparr>))))
        \<le> int (length (filterOnFineTimestamp [test_frame] 3))
   \<and> \<not> attempts
          (snd (geolocation test_env
                  (New (test_config\<lparr>GeolocationGNSS := True, GeolocationTDOA := True\<rparr>))
                  test_dev_eui [test_frame] (test_uplink\<lparr>ObjectJson := test_json_mismatch\<rparr>)))
          Tdoa"
  by code_simp

subsection \<open>The uplink ids and the frame counter of a location event\<close>

text \<open>
  Claim C5. For a location event given to the sink by a run of the handler on a store
  whose frames for the device have three receptions or more (the invariant of the
  buffer), the run made exactly one resolver call. If it is a TDOA call, its frames are
  the buffer filtered on three fine timestamps, the uplink ids of the event are the
  uplink ids of these frames and receptions in order, and the frame counter of the event
  is zero. If it is an RSSI call the same holds with the unfiltered buffer. If it is a
  GNSS or a WiFi call, the event has no uplink ids and its frame counter is that of the
  uplink.
\<close>

theorem located_uplink_ids:
  assumes run: "HandleUplinkEvent e i vars pl s = (r, s', fx)"
    and ev: "ev \<in> set (location_events fx)"
    and ok: "frames_ok (stored_frames s (copy_array 8 (DevEui pl)))"
  shows "\<exists>req. resolver_calls fx = [req]
           \<and> (case strategy_of req of
                Tdoa \<Rightarrow>
                  request_frames req
                    = filterOnFineTimestamp (updated_frames s (copy_array 8 (DevEui pl)) pl) 3
                  \<and> le_UplinkIds ev = concat (map (map UplinkId) (request_frames req))
                  \<and> le_FCnt ev = 0
              | Rssi \<Rightarrow>
                  request_frames req = updated_frames s (copy_array 8 (DevEui pl)) pl
                  \<and> le_UplinkIds ev = concat (map (map UplinkId) (request_frames req))
                  \<and> le_FCnt ev = 0
              | Gnss \<Rightarrow> le_UplinkIds ev = [] \<and> le_FCnt ev = FCnt pl
              | Wifi \<Rightarrow> le_UplinkIds ev = [] \<and> le_FCnt ev = FCnt pl)"
proof -
  define d where "d = copy_array 8 (DevEui pl)"
  define b where "b = updated_frames s d pl"
  have fx: "fx = snd (snd (HandleUplinkEvent e i vars pl s))"
    using run by simp
  have g: "Geolocation (config i)" and u: "fst (updateGeolocBuffer e i d pl s) = Inr b"
    using HandleUplinkEvent_event_run [of ev e i vars pl s] ev
    unfolding fx d_def b_def by auto
  have evs: "location_events fx =
           (case fst (geolocation e i d b pl) of
              (uplinkIDs, Some l, None) \<Rightarrow>
                [\<lparr>le_ApplicationId = ApplicationId pl, le_ApplicationName = ApplicationName pl,
                  le_DeviceName = DeviceName pl, le_DevEui = DevEui pl, le_Tags = Tags pl,
                  le_Location = l, le_UplinkIds = uplinkIDs,
                  le_FCnt = (if length uplinkIDs = 0 then FCnt pl else 0)\<rparr>]
            | _ \<Rightarrow> [])"
    unfolding fx using HandleUplinkEvent_events [OF g u [unfolded d_def]] by (simp add: d_def)
  obtain ids lo er where r3: "fst (geolocation e i d b pl) = (ids, lo, er)"
    by (metis prod_cases3)
  have lo: "lo \<noteq> None" and er: "er = None"
    using ev unfolding evs r3 by (auto split: option.splits)
  then obtain l where res: "fst (geolocation e i d b pl) = (ids, Some l, None)"
    using r3 by auto
  have ids: "le_UplinkIds ev = ids"
    and fcnt: "le_FCnt ev = (if length ids = 0 then FCnt pl else 0)"
    using ev unfolding evs res by auto
  have nf: "\<not> extractor_fails e (config i) pl"
    using res by (auto simp: geolocation_fst)
  obtain st where sel: "spec_selected e (config i) b pl = Some st"
    using res nf by (cases "spec_selected e (config i) b pl") (auto simp: geolocation_fst)
  have q: "spec_qualifies e (config i) b pl st"
    using sel by (auto simp: spec_selected_def split: if_splits)
  have calls: "resolver_calls fx = [spec_request e (config i) b pl st]"
    unfolding fx using HandleUplinkEvent_calls [OF g u [unfolded d_def]] nf sel
    by (simp add: geolocation_calls d_def)
  have okb: "frames_ok b"
    unfolding b_def d_def using ok by (rule frames_ok_updated)
  have "case st of
          Tdoa \<Rightarrow>
            request_frames (spec_request e (config i) b pl st) = filterOnFineTimestamp b 3
            \<and> le_UplinkIds ev
                = concat (map (map UplinkId) (request_frames (spec_request e (config i) b pl st)))
            \<and> le_FCnt ev = 0
        | Rssi \<Rightarrow>
            request_frames (spec_request e (config i) b pl st) = b
            \<and> le_UplinkIds ev
                = concat (map (map UplinkId) (request_frames (spec_request e (config i) b pl st)))
            \<and> le_FCnt ev = 0
        | Gnss \<Rightarrow> le_UplinkIds ev = [] \<and> le_FCnt ev = FCnt pl
        | Wifi \<Rightarrow> le_UplinkIds ev = [] \<and> le_FCnt ev = FCnt pl"
  proof (cases st)
    case Gnss
    with res nf sel ids fcnt show ?thesis by (auto simp: geolocation_fst)
  next
    case Wifi
    with res nf sel ids fcnt show ?thesis by (auto simp: geolocation_fst)
  next
    case Tdoa
    have i1: "ids = concat (map (map UplinkId) (filterOnFineTimestamp b 3))"
      using res nf sel Tdoa by (auto simp: geolocation_fst)
    have "filterOnFineTimestamp b 3 \<noteq> []"
      using q Tdoa by auto
    then have "ids \<noteq> []"
      unfolding i1 using frames_ok_filtered by (rule concat_ids_nonempty)
    with i1 ids fcnt Tdoa show ?thesis
      by (auto simp: request_frames_spec_request simp del: spec_request.simps)
  next
    case Rssi
    have i1: "ids = concat (map (map UplinkId) b)"
      using res nf sel Rssi by (auto simp: geolocation_fst)
    have "b \<noteq> []"
      using q Rssi by auto
    then have "ids \<noteq> []"
      unfolding i1 using okb by (rule concat_ids_nonempty)
    with i1 ids fcnt Rssi show ?thesis
      by (auto simp: request_frames_spec_request simp del: spec_request.simps)
  qed
  then show ?thesis
    unfolding calls b_def d_def by (intro exI [of _ "spec_request e (config i) (updated_frames s (copy_array 8 (DevEui pl)) pl) pl st"]) simp
qed

text \<open>
  TDOA on two frames, the older one from the store: the uplink ids are those of the six
  receptions, the older frame first.
\<close>

theorem located_uplink_ids_witness:
  "frames_ok (stored_frames [test_dev_eui \<mapsto> ([test_frame_old], 60000000000)]
                (copy_array 8 (DevEui test_uplink)))
   \<and> location_events
        (snd (snd (HandleUplinkEvent test_env
             (New (test_config\<lparr>GeolocationTDOA := True, GeolocationMinBufferSize := 2,
                                GeolocationBufferTTL := 60\<rparr>)) [] test_uplink
             [test_dev_eui \<mapsto> ([test_frame_old], 60000000000)])))
      = [\<lparr>le_ApplicationId = 1, le_ApplicationName = ''test-app'',
          le_DeviceName = ''test-device'', le_DevEui = [1, 2, 3, 4, 5, 6, 7, 8], le_Tags = [],
          le_Location = test_location GEO_RESOLVER_TDOA,
          le_UplinkIds = [[4], [5], [6], [1], [2], [3]], le_FCnt = 0\<rparr>]
   \<and> (\<exists>req. resolver_calls
               (snd (snd (HandleUplinkEvent test_env
                  (New (test_config\<lparr>GeolocationTDOA := True, GeolocationMinBufferSize := 2,
                                     GeolocationBufferTTL := 60\<rparr>)) [] test_uplink
                  [test_dev_eui \<mapsto> ([test_frame_old], 60000000000)]))) = [req]
            \<and> strategy_of req = Tdoa
            \<and> request_frames req = [test_frame_old, test_frame]
            \<and> concat (map (map UplinkId) (request_frames req))
                = [[4], [5], [6], [1], [2], [3]])"
proof -
  let ?i = "New (test_config\<lparr>GeolocationTDOA := True, GeolocationMinBufferSize := 2,
                                GeolocationBufferTTL := 60\<rparr>)"
  let ?s = "[test_dev_eui \<mapsto> ([test_frame_old], 60000000000 :: int)]"
  let ?H = "HandleUplinkEvent test_env ?i [] test_uplink ?s"
  let ?ev = "\<lparr>le_ApplicationId = 1, le_ApplicationName = ''test-app'',
          le_DeviceName = ''test-device'', le_DevEui = [1, 2, 3, 4, 5, 6, 7, 8], le_Tags = [],
          le_Location = test_location GEO_RESOLVER_TDOA,
          le_UplinkIds = [[4], [5], [6], [1], [2], [3]], le_FCnt = 0\<rparr>"
  have run: "?H = (fst ?H, fst (snd ?H), snd (snd ?H))"
    by simp
  have evs: "location_events (snd (snd ?H)) = [?ev]"
    by code_simp
  then have ev: "?ev \<in> set (location_events (snd (snd ?H)))"
    by simp
  have ok: "frames_ok (stored_frames ?s (copy_array 8 (DevEui test_uplink)))"
    by code_simp
  have upd: "updated_frames ?s (copy_array 8 (DevEui test_uplink)) test_uplink
               = [test_frame_old, test_frame]"
    by code_simp
  have flt: "filterOnFineTimestamp [test_frame_old, test_frame] 3 = [test_frame_old, test_frame]"
    by code_simp
  have ids: "concat (map (map UplinkId) [test_frame_old, test_frame])
               = [[4], [5], [6], [1], [2], [3]]"
    by code_simp
  from located_uplink_ids [OF run ev ok]
  obtain req where r: "resolver_calls (snd (snd ?H)) = [req]"
    and c: "case strategy_of req of
                Tdoa \<Rightarrow>
                  request_frames req
                    = filterOnFineTimestamp
                        (updated_frames ?s (copy_array 8 (DevEui test_uplink)) test_uplink) 3
                  \<and> le_UplinkIds ?ev = concat (map (map UplinkId) (request_frames req))
                  \<and> le_FCnt ?ev = 0
              | Rssi \<Rightarrow>
                  request_frames req
                    = updated_frames ?s (copy_array 8 (DevEui test_uplink)) test_uplink
                  \<and> le_UplinkIds ?ev = concat (map (map UplinkId) (request_frames req))
                  \<and> le_FCnt ?ev = 0
              | Gnss \<Rightarrow> le_UplinkIds ?ev = [] \<and> le_FCnt ?ev = FCnt test_uplink
              | Wifi \<Rightarrow> le_UplinkIds ?ev = [] \<and> le_FCnt ?ev = FCnt test_uplink"
    by blast
  have calls: "resolver_calls (snd (snd ?H)) = [TDOAMultiFrame [test_frame_old, test_frame]]"
    by code_simp
  with r have st: "strategy_of req = Tdoa"
    by auto
  with c have "request_frames req = [test_frame_old, test_frame]"
    by (simp add: upd flt)
  with r st ids evs ok show ?thesis by simp
qed

subsection \<open>The errors of the handler\<close>

text \<open>
  Claim C8. \<open>HandleUplinkEvent\<close> returns an error exactly in three cases, with
  geolocation enabled: the read of the buffer fails, the write of a buffer that is not
  empty fails, or the orchestrator returns an error; the error is the cause wrapped with
  the context of the step. The result does not depend on the sink: when the sink is
  called and fails, the handler logs an error and returns success.
\<close>

theorem HandleUplinkEvent_errors:
  "fst (HandleUplinkEvent e i vars pl s) =
     (if Geolocation (config i) then
        (case store_get_error e of
           Some err \<Rightarrow>
             Some (Wrap (Wrap err ''get geoloc buffer error'') ''update geolocation buffer error'')
         | None \<Rightarrow>
             (case (if updated_frames s (copy_array 8 (DevEui pl)) pl = [] then None
                    else store_save_error e) of
                Some err \<Rightarrow>
                  Some (Wrap (Wrap err ''save geoloc buffer error'')
                          ''update geolocation buffer error'')
              | None \<Rightarrow>
                  (case snd (snd (fst (geolocation e i (copy_array 8 (DevEui pl))
                                        (updated_frames s (copy_array 8 (DevEui pl)) pl) pl))) of
                     Some err \<Rightarrow> Some (Wrap err ''geolocation error'')
                   | None \<Rightarrow> None)))
      else None)
   \<and> fst (HandleUplinkEvent (e\<lparr>sink_HandleLocationEvent := k\<rparr>) i vars pl s)
       = fst (HandleUplinkEvent e i vars pl s)
   \<and> (SinkLocationEvent vars ev \<in> set (snd (snd (HandleUplinkEvent e i vars pl s)))
        \<and> sink_HandleLocationEvent e vars ev \<noteq> None
      \<longrightarrow> fst (HandleUplinkEvent e i vars pl s) = None
          \<and> Log ErrorLevel ''integration/loracloud: geolocation error''
               \<in> set (snd (snd (HandleUplinkEvent e i vars pl s))))"
proof (intro conjI impI)
  show "fst (HandleUplinkEvent e i vars pl s) =
     (if Geolocation (config i) then
        (case store_get_error e of
           Some err \<Rightarrow>
             Some (Wrap (Wrap err ''get geoloc buffer error'') ''update geolocation buffer error'')
         | None \<Rightarrow>
             (case (if updated_frames s (copy_array 8 (DevEui pl)) pl = [] then None
                    else store_save_error e) of
                Some err \<Rightarrow>
                  Some (Wrap (Wrap err ''save geoloc buffer error'')
                          ''update geolocation buffer error'')
              | None \<Rightarrow>
                  (case snd (snd (fst (geolocation e i (copy_array 8 (DevEui pl))
                                        (updated_frames s (copy_array 8 (DevEui pl)) pl) pl))) of
                     Some err \<Rightarrow> Some (Wrap err ''geolocation error'')
                   | None \<Rightarrow> None)))
      else None)"
    unfolding HandleUplinkEvent_fst_eq
    by (auto simp: updateGeolocBuffer_eq Let_def split: option.splits)
  show "fst (HandleUplinkEvent (e\<lparr>sink_HandleLocationEvent := k\<rparr>) i vars pl s)
       = fst (HandleUplinkEvent e i vars pl s)"
    unfolding HandleUplinkEvent_fst_eq by (simp split: sum.splits)
next
  assume a: "SinkLocationEvent vars ev \<in> set (snd (snd (HandleUplinkEvent e i vars pl s)))
        \<and> sink_HandleLocationEvent e vars ev \<noteq> None"
  then have ev: "ev \<in> set (location_events (snd (snd (HandleUplinkEvent e i vars pl s))))"
    by (auto dest: sink_effect_event)
  from HandleUplinkEvent_event_run [OF ev]
  have g: "Geolocation (config i)"
    and u: "fst (updateGeolocBuffer e i (copy_array 8 (DevEui pl)) pl s)
             = Inr (updated_frames s (copy_array 8 (DevEui pl)) pl)"
    by auto
  have evs: "location_events (snd (snd (HandleUplinkEvent e i vars pl s))) \<noteq> []"
    using ev by auto
  show "fst (HandleUplinkEvent e i vars pl s) = None"
    using evs HandleUplinkEvent_events [OF g u, of vars] HandleUplinkEvent_fst [OF g u, of vars]
    by (auto split: prod.splits option.splits)
  show "Log ErrorLevel ''integration/loracloud: geolocation error''
               \<in> set (snd (snd (HandleUplinkEvent e i vars pl s)))"
    using a ev g u updateGeolocBuffer_no_calls(2) [of e i "copy_array 8 (DevEui pl)" pl s]
      geolocation_events [of e i "copy_array 8 (DevEui pl)" "updated_frames s (copy_array 8 (DevEui pl)) pl" pl]
    by (auto simp: HandleUplinkEvent_def Let_def split: prod.splits sum.splits option.splits)
qed

text \<open>
  A store whose read fails, and a sink that fails on the event of a TDOA location.
\<close>

theorem HandleUplinkEvent_errors_witness:
  "fst (HandleUplinkEvent (test_env\<lparr>store_get_error := Some (Errorf ''redis down'')\<rparr>)
          (New (test_config\<lparr>GeolocationTDOA := True\<rparr>)) [] test_uplink Map.empty)
     = Some (Wrap (Wrap (Errorf ''redis down'') ''get geoloc buffer error'')
               ''update geolocation buffer error'')
   \<and> (\<exists>ev. SinkLocationEvent [] ev
             \<in> set (snd (snd (HandleUplinkEvent
                  (test_env\<lparr>sink_HandleLocationEvent := (\<lambda>vars ev. Some (Errorf ''sink down''))\<rparr>)
                  (New (test_config\<lparr>GeolocationTDOA := True\<rparr>)) [] test_uplink Map.empty))))
   \<and> fst (HandleUplinkEvent
            (test_env\<lparr>sink_HandleLocationEvent := (\<lambda>vars ev. Some (Errorf ''sink down''))\<rparr>)
            (New (test_config\<lparr>GeolocationTDOA := True\<rparr>)) [] test_uplink Map.empty) = None
   \<and> Log ErrorLevel ''integration/loracloud: geolocation error''
       \<in> set (snd (snd (HandleUplinkEvent
                  (test_env\<lparr>sink_HandleLocationEvent := (\<lambda>vars ev. Some (Errorf ''sink down''))\<rparr>)
                  (New (test_config\<lparr>GeolocationTDOA := True\<rparr>)) [] test_uplink Map.empty)))"
proof -
  let ?i = "New (test_config\<lparr>GeolocationTDOA := True\<rparr>)"
  let ?e1 = "test_env\<lparr>store_get_error := Some (Errorf ''redis down'')\<rparr>"
  let ?e2 = "test_env\<lparr>sink_HandleLocationEvent := (\<lambda>vars ev. Some (Errorf ''sink down''))\<rparr>"
  let ?ev = "\<lparr>le_ApplicationId = 1, le_ApplicationName = ''test-app'',
          le_DeviceName = ''test-device'', le_DevEui = [1, 2, 3, 4, 5, 6, 7, 8], le_Tags = [],
          le_Location = test_location GEO_RESOLVER_TDOA,
          le_UplinkIds = [[1], [2], [3]], le_FCnt = 0\<rparr>"
  have g: "Geolocation (config ?i)" "store_get_error ?e1 = Some (Errorf ''redis down'')"
    by code_simp+
  have a: "fst (HandleUplinkEvent ?e1 ?i [] test_uplink Map.empty)
     = Some (Wrap (Wrap (Errorf ''redis down'') ''get geoloc buffer error'')
               ''update geolocation buffer error'')"
    using HandleUplinkEvent_errors [of ?e1 ?i "[]" test_uplink Map.empty] g by simp
  have m: "SinkLocationEvent [] ?ev
             \<in> set (snd (snd (HandleUplinkEvent ?e2 ?i [] test_uplink Map.empty)))"
    by code_simp
  have f: "sink_HandleLocationEvent ?e2 [] ?ev \<noteq> None"
    by simp
  from HandleUplinkEvent_errors [of ?e2 ?i "[]" test_uplink Map.empty _ ?ev] m f
  have "fst (HandleUplinkEvent ?e2 ?i [] test_uplink Map.empty) = None"
    and "Log ErrorLevel ''integration/loracloud: geolocation error''
       \<in> set (snd (snd (HandleUplinkEvent ?e2 ?i [] test_uplink Map.empty)))"
    by blast+
  with a m show ?thesis by blast
qed

end
